theory Spec2Isabelle
  imports Complex_Main
begin

section \<open>Data model of \<^verbatim>\<open>interfaces/simulation.py\<close>\<close>

text \<open>
  A point of the chain is a NumPy vector of floats; it is modelled as a list of reals, so
  rounding is idealised away and only the structure of the computations is kept. Python's
  unbounded integers are \<^typ>\<open>int\<close>.
\<close>

type_synonym point = "real list"

datatype error = ValueError string | TypeError string | IndexError string

text \<open>
  \<^verbatim>\<open>MCMCSimulation.__init__\<close> receives the algorithm \<^emph>\<open>class\<close> as its argument
  \<^verbatim>\<open>algorithm\<close> and only ever uses the constructor, \<^verbatim>\<open>step()\<close>, \<^verbatim>\<open>reset()\<close>,
  \<^verbatim>\<open>chain\<close> and \<^verbatim>\<open>acceptance_rate\<close> of the object it builds. These five operations,
  over an abstract object state \<open>'a\<close>, make up the class. The type \<open>'g\<close> is the state of
  NumPy's process-wide random generator, which the constructor and \<^verbatim>\<open>step()\<close> may read
  and advance; \<open>'t\<close> is the type of target distributions.
\<close>

record ('a, 't, 'g) MHAlgorithm_class =
  alg_new :: "int \<Rightarrow> real \<Rightarrow> 't \<Rightarrow> bool \<Rightarrow> real list option \<Rightarrow> real option \<Rightarrow> 'g \<Rightarrow> 'a \<times> 'g"
  alg_step :: "'a \<Rightarrow> 'g \<Rightarrow> 'a \<times> 'g"
  alg_reset :: "'a \<Rightarrow> 'a"
  alg_chain :: "'a \<Rightarrow> point list"
  alg_acceptance_rate :: "'a \<Rightarrow> real"

record ('a, 't) MCMCSimulation =
  num_iterations :: int
  burn_in :: int
  target_dist :: 't
  algorithm :: 'a

subsection \<open>Construction\<close>

text \<open>
  \<^verbatim>\<open>__init__\<close>, lines 12 to 33. The default \<^verbatim>\<open>algorithm=None\<close> is not callable, so
  line 26 raises a \<^verbatim>\<open>TypeError\<close> then. \<^verbatim>\<open>np.random.seed\<close> is NumPy's; it is the
  parameter \<open>np_random_seed\<close>, which either rejects the seed or returns the generator state
  that the seed determines. \<^verbatim>\<open>if seed:\<close> is Python truthiness of an \<^verbatim>\<open>Optional[int]\<close>:
  false for \<^verbatim>\<open>None\<close> and for \<^verbatim>\<open>0\<close>.
\<close>

definition truthy :: "int option \<Rightarrow> bool" where
  "truthy seed = (case seed of None \<Rightarrow> False | Some n \<Rightarrow> n \<noteq> 0)"

definition MCMCSimulation_init ::
  "(int \<Rightarrow> error + 'g) \<Rightarrow> int \<Rightarrow> real \<Rightarrow> int \<Rightarrow> ('a, 't, 'g) MHAlgorithm_class option \<Rightarrow> 't \<Rightarrow> bool
     \<Rightarrow> int option \<Rightarrow> real list option \<Rightarrow> real option \<Rightarrow> int \<Rightarrow> 'g
     \<Rightarrow> (error + ('a, 't) MCMCSimulation) \<times> 'g" where
  "MCMCSimulation_init np_random_seed dm sigma n alg_class target symmetric seed beta_ladder
       swap_acceptance_rate b g =
     (case alg_class of
        None \<Rightarrow> (Inl (TypeError ''NoneType object is not callable''), g)
      | Some A \<Rightarrow>
          (case alg_new A dm sigma target symmetric beta_ladder swap_acceptance_rate g of
             (a, g1) \<Rightarrow>
               (let s = \<lparr>num_iterations = n, burn_in = max 0 (min b (n - 1)),
                         target_dist = target, algorithm = a\<rparr>
                in if truthy seed
                   then (case np_random_seed (the seed) of
                           Inl e \<Rightarrow> (Inl e, g1)
                         | Inr g2 \<Rightarrow> (Inr s, g2))
                   else (Inr s, g1))))"

subsection \<open>Methods\<close>

definition reset :: "('a, 't, 'g) MHAlgorithm_class \<Rightarrow> ('a, 't) MCMCSimulation \<Rightarrow> ('a, 't) MCMCSimulation" where
  "reset A s = s\<lparr>algorithm := alg_reset A (algorithm s)\<rparr>"

definition has_run :: "('a, 't, 'g) MHAlgorithm_class \<Rightarrow> ('a, 't) MCMCSimulation \<Rightarrow> bool" where
  "has_run A s = (length (alg_chain A (algorithm s)) > 1)"

text \<open>
  The loop \<^verbatim>\<open>for i in range(self.num_iterations): self.algorithm.step()\<close>, for the
  \<^verbatim>\<open>step\<close> method of the algorithm object.
\<close>

fun steps :: "('a \<Rightarrow> 'g \<Rightarrow> 'a \<times> 'g) \<Rightarrow> nat \<Rightarrow> 'a \<Rightarrow> 'g \<Rightarrow> 'a \<times> 'g" where
  "steps step 0 a g = (a, g)"
| "steps step (Suc k) a g = (case step a g of (a', g') \<Rightarrow> steps step k a' g')"

text \<open>
  \<^verbatim>\<open>generate_samples\<close> returns what Python returns (the exception or the chain) together
  with the object and the generator as they are left. \<^verbatim>\<open>range(n)\<close> is empty for
  \<open>n \<le> 0\<close>, which is \<open>nat n = 0\<close>. The progress bar and the \<^verbatim>\<open>print\<close> are not modelled.
\<close>

definition generate_samples ::
  "('a, 't, 'g) MHAlgorithm_class \<Rightarrow> ('a, 't) MCMCSimulation \<Rightarrow> 'g
     \<Rightarrow> (error + point list) \<times> ('a, 't) MCMCSimulation \<times> 'g" where
  "generate_samples A s g =
     (if has_run A s
      then (Inl (ValueError ''Please reset the algorithm before running it again.''), s, g)
      else (case steps (alg_step A) (nat (num_iterations s)) (algorithm s) g of
              (a', g') \<Rightarrow> (Inr (alg_chain A a'), s\<lparr>algorithm := a'\<rparr>, g')))"

definition acceptance_rate :: "('a, 't, 'g) MHAlgorithm_class \<Rightarrow> ('a, 't) MCMCSimulation \<Rightarrow> error + real" where
  "acceptance_rate A s =
     (if \<not> has_run A s then Inl (ValueError ''The algorithm has not been run yet.'')
      else Inr (alg_acceptance_rate A (algorithm s)))"

text \<open>
  \<^verbatim>\<open>np.sum((c[1:] - c[:-1]) ** 2, axis=1)\<close>: one squared Euclidean distance for each pair
  of neighbouring rows. \<^verbatim>\<open>np.mean\<close> of an empty array is \<^verbatim>\<open>nan\<close>; \<open>np_mean []\<close> is
  \<open>0\<close> here, and lemma \<open>squared_jumps_nonempty\<close> below shows that the method never takes
  the mean of an empty array.
\<close>

definition sq_dist :: "point \<Rightarrow> point \<Rightarrow> real" where
  "sq_dist p q = sum_list (map2 (\<lambda>x y. (x - y)\<^sup>2) p q)"

definition squared_jumps :: "point list \<Rightarrow> real list" where
  "squared_jumps c = map2 sq_dist (tl c) (butlast c)"

definition np_mean :: "real list \<Rightarrow> real" where
  "np_mean xs = sum_list xs / real (length xs)"

definition expected_squared_jump_distance ::
  "('a, 't, 'g) MHAlgorithm_class \<Rightarrow> ('a, 't) MCMCSimulation \<Rightarrow> error + real" where
  "expected_squared_jump_distance A s =
     (if \<not> has_run A s then Inl (ValueError ''The algorithm has not been run yet.'')
      else (let c = alg_chain A (algorithm s) in
            if burn_in s > 0 \<and> int (length c) > burn_in s + 1
            then Inr (np_mean (squared_jumps (drop (nat (burn_in s)) c)))
            else if burn_in s = 0
            then Inr (np_mean (squared_jumps c))
            else Inr 0))"


section \<open>The algorithm object\<close>

text \<open>
  Modelled from the spec: \<^verbatim>\<open>MHAlgorithm\<close> (\<^verbatim>\<open>interfaces/metropolis.py\<close>) is not among the
  source files. Sections 3 and 4.3 of the specification give its state (the current
  position, the append-only chain whose index 0 is the initial state, the counter of
  accepted proposals) and its operations: \<^verbatim>\<open>step()\<close> takes the current state \<open>x\<close>, asks the
  proposal generator for a candidate \<open>y\<close>, decides acceptance from the two densities and one
  uniform draw, and appends \<open>y\<close> (counting it) or \<open>x\<close> again; \<^verbatim>\<open>reset()\<close> returns to the
  initial state, clearing chain and diagnostics. The proposal generator \<open>sample\<close> and the
  acceptance decision \<open>accept\<close> (steps 3 and 4) are parameters; both thread the generator.
\<close>

record mh_state =
  current :: point
  history :: "point list"
  accepted_count :: nat

text \<open>
  Modelled from the spec: the \<^verbatim>\<open>Initialized\<close> state of the absent \<^verbatim>\<open>MHAlgorithm\<close>, a chain
  that holds the initial state only and a counter at zero (section 3).
\<close>

definition spec_new :: "point \<Rightarrow> mh_state" where
  "spec_new x0 = \<lparr>current = x0, history = [x0], accepted_count = 0\<rparr>"

text \<open>
  Modelled from the spec: \<^verbatim>\<open>step()\<close> of the absent \<^verbatim>\<open>MHAlgorithm\<close>, steps 1 to 5 of
  section 4.3.
\<close>

definition spec_step ::
  "(point \<Rightarrow> 'g \<Rightarrow> point \<times> 'g) \<Rightarrow> (point \<Rightarrow> point \<Rightarrow> 'g \<Rightarrow> bool \<times> 'g) \<Rightarrow> mh_state \<Rightarrow> 'g \<Rightarrow> mh_state \<times> 'g" where
  "spec_step sample accept a g =
     (let x = current a in
      case sample x g of (y, g1) \<Rightarrow>
      case accept x y g1 of (acc, g2) \<Rightarrow>
        (if acc
         then a\<lparr>current := y, history := history a @ [y], accepted_count := accepted_count a + 1\<rparr>
         else a\<lparr>history := history a @ [x]\<rparr>, g2))"

text \<open>
  Modelled from the spec: the \<^verbatim>\<open>acceptance_rate\<close> of the absent \<^verbatim>\<open>MHAlgorithm\<close>, the
  accepted count over the number of steps made (section 3).
\<close>

definition spec_acceptance_rate :: "mh_state \<Rightarrow> real" where
  "spec_acceptance_rate a = real (accepted_count a) / real (length (history a) - 1)"

text \<open>
  Modelled from the spec: the absent class \<^verbatim>\<open>MHAlgorithm\<close> as \<^verbatim>\<open>MCMCSimulation\<close> uses it.
  Its constructor draws nothing from the generator, and \<^verbatim>\<open>reset()\<close> returns to the
  \<^verbatim>\<open>Initialized\<close> state, clearing chain and diagnostics (sections 3 and 4.3).
\<close>

definition spec_MHAlgorithm ::
  "(point \<Rightarrow> 'g \<Rightarrow> point \<times> 'g) \<Rightarrow> (point \<Rightarrow> point \<Rightarrow> 'g \<Rightarrow> bool \<times> 'g) \<Rightarrow> point
     \<Rightarrow> (mh_state, 't, 'g) MHAlgorithm_class" where
  "spec_MHAlgorithm sample accept x0 =
     \<lparr>alg_new = (\<lambda>dm sigma target symmetric beta_ladder swap_acceptance_rate g. (spec_new x0, g)),
      alg_step = spec_step sample accept,
      alg_reset = (\<lambda>a. spec_new x0),
      alg_chain = history,
      alg_acceptance_rate = spec_acceptance_rate\<rparr>"

subsection \<open>A small concrete instance\<close>

text \<open>
  A generator whose state is a counter, seeded like NumPy's legacy generator (seeds from
  \<open>0\<close> to \<open>2\<^sup>3\<^sup>2 - 1\<close>), a proposal that shifts every coordinate by the counter, and an
  acceptance that refuses the candidates met at a counter divisible by three. It is used to run the
  definitions on concrete inputs.
\<close>

definition counter_seed :: "int \<Rightarrow> error + nat" where
  "counter_seed k =
     (if 0 \<le> k \<and> k < 2 ^ 32 then Inr (nat k)
      else Inl (ValueError ''Seed must be between 0 and 2**32 - 1''))"

definition shift_sample :: "point \<Rightarrow> nat \<Rightarrow> point \<times> nat" where
  "shift_sample x g = (map (\<lambda>v. v + real g) x, Suc g)"

definition mod3_accept :: "point \<Rightarrow> point \<Rightarrow> nat \<Rightarrow> bool \<times> nat" where
  "mod3_accept x y g = (g mod 3 \<noteq> 0, Suc g)"

definition counter_MH :: "(mh_state, unit, nat) MHAlgorithm_class" where
  "counter_MH = spec_MHAlgorithm shift_sample mod3_accept [0, 0]"

text \<open>The caller's sequence: build the simulation, then run it once.\<close>

definition construct_and_run ::
  "(int \<Rightarrow> error + 'g) \<Rightarrow> int \<Rightarrow> real \<Rightarrow> int \<Rightarrow> ('a, 't, 'g) MHAlgorithm_class \<Rightarrow> 't \<Rightarrow> bool
     \<Rightarrow> int option \<Rightarrow> real list option \<Rightarrow> real option \<Rightarrow> int \<Rightarrow> 'g
     \<Rightarrow> (error + point list \<times> ('a, 't) MCMCSimulation) \<times> 'g" where
  "construct_and_run np_random_seed dm sigma n A target symmetric seed beta_ladder
       swap_acceptance_rate b g =
     (case MCMCSimulation_init np_random_seed dm sigma n (Some A) target symmetric seed
             beta_ladder swap_acceptance_rate b g of
        (Inl e, g1) \<Rightarrow> (Inl e, g1)
      | (Inr s, g1) \<Rightarrow>
          (case generate_samples A s g1 of
             (Inl e, s', g2) \<Rightarrow> (Inl e, g2)
           | (Inr c, s', g2) \<Rightarrow> (Inr (c, s'), g2)))"

text \<open>The chain that the run returned, without the object.\<close>

definition chain_of :: "error + point list \<times> 's \<Rightarrow> error + point list" where
  "chain_of r = (case r of Inl e \<Rightarrow> Inl e | Inr (c, s) \<Rightarrow> Inr c)"

text \<open>
  Two runs of one configuration in one process, one after the other: the second starts
  from the generator as the first left it. The result is the pair of returned chains.
\<close>

definition run_twice ::
  "(int \<Rightarrow> error + 'g) \<Rightarrow> int \<Rightarrow> real \<Rightarrow> int \<Rightarrow> ('a, 't, 'g) MHAlgorithm_class \<Rightarrow> 't \<Rightarrow> bool
     \<Rightarrow> int option \<Rightarrow> real list option \<Rightarrow> real option \<Rightarrow> int \<Rightarrow> 'g
     \<Rightarrow> (error + point list) \<times> (error + point list)" where
  "run_twice np_random_seed dm sigma n A target symmetric seed beta_ladder
       swap_acceptance_rate b g =
     (case construct_and_run np_random_seed dm sigma n A target symmetric seed beta_ladder
             swap_acceptance_rate b g of
        (r1, g1) \<Rightarrow>
          (case construct_and_run np_random_seed dm sigma n A target symmetric seed beta_ladder
                  swap_acceptance_rate b g1 of
             (r2, g2) \<Rightarrow> (chain_of r1, chain_of r2)))"

text \<open>The diagnostic of a finished run, as a caller reads it after \<^verbatim>\<open>generate_samples()\<close>.\<close>

definition esjd_of_run ::
  "('a, 't, 'g) MHAlgorithm_class \<Rightarrow> (error + point list \<times> ('a, 't) MCMCSimulation) \<Rightarrow> error + real" where
  "esjd_of_run A r = (case r of Inl e \<Rightarrow> Inl e | Inr (c, s) \<Rightarrow> expected_squared_jump_distance A s)"

subsection \<open>The diagnostic in the specification's words\<close>

text \<open>
  The specification's ESJD: the mean, over the consecutive pairs of post-burn-in states, of
  the squared Euclidean distance of the pair, and \<open>0\<close> when there are fewer than two such
  states. The post-burn-in states are the chain without its first \<open>burn_in\<close> entries.
\<close>

definition spec_sq_euclid :: "point \<Rightarrow> point \<Rightarrow> real" where
  "spec_sq_euclid p q = (\<Sum>j < min (length p) (length q). (p ! j - q ! j)\<^sup>2)"

definition post_burn_in :: "int \<Rightarrow> point list \<Rightarrow> point list" where
  "post_burn_in b c = drop (nat b) c"

definition spec_esjd :: "int \<Rightarrow> point list \<Rightarrow> real" where
  "spec_esjd b c =
     (let p = post_burn_in b c in
      if length p < 2 then 0
      else (\<Sum>i < length p - 1. spec_sq_euclid (p ! Suc i) (p ! i)) / real (length p - 1))"

section \<open>The sweep of \<^verbatim>\<open>experiment_RWM_GPU.py\<close>\<close>

subsection \<open>Dimensions of the constrained targets\<close>

definition calculate_hybrid_rosenbrock_dim :: "int \<Rightarrow> int \<Rightarrow> int" where
  "calculate_hybrid_rosenbrock_dim n1 n2 = 1 + n2 * (n1 - 1)"

definition calculate_super_funnel_dim :: "int \<Rightarrow> int \<Rightarrow> int" where
  "calculate_super_funnel_dim J K = J + J * K + 1 + K + 1 + 1"

subsection \<open>Keyword arguments and targets\<close>

text \<open>
  \<^verbatim>\<open>**kwargs\<close> is a dictionary; the keys that the file reads are the fields of a record,
  each absent (\<open>None\<close>) or present, with the types that the command line gives them.
  \<^verbatim>\<open>mode_centers\<close> is a list of numbers for the carpet targets and a list of points for the
  mixtures.
\<close>

datatype centers = Flat "real list" | Nested "real list list"

record kwargs =
  kw_n1 :: "int option"
  kw_n2 :: "int option"
  kw_J :: "int option"
  kw_K :: "int option"
  kw_n_per_group :: "int option"
  kw_a_coeff :: "real option"
  kw_b_coeff :: "real option"
  kw_mu :: "real option"
  kw_mu_v :: "real option"
  kw_sigma_v_sq :: "real option"
  kw_mu_z :: "real option"
  kw_prior_hypermean_std :: "real option"
  kw_prior_tau_scale :: "real option"
  kw_mode_centers :: "centers option"
  kw_mode_weights :: "real list option"

text \<open>\<^verbatim>\<open>kwargs.get(key, default)\<close>.\<close>

definition kwargs_get :: "'v option \<Rightarrow> 'v \<Rightarrow> 'v" where
  "kwargs_get v dflt = (case v of None \<Rightarrow> dflt | Some x \<Rightarrow> x)"

text \<open>
  The target classes live in \<^verbatim>\<open>target_distributions\<close>, which is not among the source
  files; a target object is the record of the constructor call that built it: the class
  and its arguments, without the device. For \<^verbatim>\<open>SuperFunnelTorch\<close> the synthetic data are
  drawn from Torch's generator seeded with 42, for \<open>J\<close> groups of \<open>n_per_group\<close> rows and
  \<open>K\<close> columns; the call is recorded by these three numbers, and what the seeding and the
  draws do to the state \<open>'w\<close> of the process is the parameter \<open>synthetic_data\<close> of
  \<^verbatim>\<open>get_target_distribution\<close>. No other branch touches that state.
\<close>

datatype target =
    MultivariateNormalTorch int
  | ScaledMultivariateNormalTorch int
  | RoughCarpetDistributionTorch int bool centers "real list"
  | ThreeMixtureDistributionTorch int bool centers "real list"
  | HypercubeTorch int int int
  | IIDGammaTorch int int int
  | IIDBetaTorch int int int
  | FullRosenbrockTorch int real real real
  | EvenRosenbrockTorch int real real real
  | HybridRosenbrockTorch int int real real real
  | NealFunnelTorch int real real real
  | SuperFunnelTorch int int int real real
  | MultivariateNormal int
  | RoughCarpetDistribution int bool centers "real list"
  | ThreeMixtureDistribution int bool centers "real list"
  | Hypercube int int int
  | IIDGamma int int int
  | IIDBeta int int int

text \<open>The default mode centres of the mixtures: \<^verbatim>\<open>[-5.0] + [0.0] * (dim - 1)\<close> and so on.\<close>

definition three_mixture_centers :: "int \<Rightarrow> centers" where
  "three_mixture_centers dm =
     Nested [[- 5] @ replicate (nat (dm - 1)) 0, replicate (nat dm) 0, [5] @ replicate (nat (dm - 1)) 0]"

definition get_target_distribution ::
  "(int \<Rightarrow> int \<Rightarrow> int \<Rightarrow> 'w \<Rightarrow> 'w) \<Rightarrow> string \<Rightarrow> int \<Rightarrow> bool \<Rightarrow> kwargs \<Rightarrow> 'w
     \<Rightarrow> (error + target) \<times> 'w" where
  "get_target_distribution synthetic_data name dm use_torch kw w =
     (if use_torch then
        (if name = ''MultivariateNormal'' then
           (Inr (MultivariateNormalTorch dm), w)
         else if name = ''MultivariateNormalScaled'' then
           (Inr (ScaledMultivariateNormalTorch dm), w)
         else if name = ''RoughCarpet'' then
           (Inr (RoughCarpetDistributionTorch dm False
                   (kwargs_get (kw_mode_centers kw) (Flat [- 4, 0, 4]))
                   (kwargs_get (kw_mode_weights kw) [5 / 10, 3 / 10, 2 / 10])), w)
         else if name = ''RoughCarpetScaled'' then
           (Inr (RoughCarpetDistributionTorch dm True
                   (kwargs_get (kw_mode_centers kw) (Flat [- 4, 0, 4]))
                   (kwargs_get (kw_mode_weights kw) [5 / 10, 3 / 10, 2 / 10])), w)
         else if name = ''ThreeMixture'' then
           (Inr (ThreeMixtureDistributionTorch dm False
                   (kwargs_get (kw_mode_centers kw) (three_mixture_centers dm))
                   (kwargs_get (kw_mode_weights kw) [1 / 3, 1 / 3, 1 / 3])), w)
         else if name = ''ThreeMixtureScaled'' then
           (Inr (ThreeMixtureDistributionTorch dm True
                   (kwargs_get (kw_mode_centers kw) (three_mixture_centers dm))
                   (kwargs_get (kw_mode_weights kw) [1 / 3, 1 / 3, 1 / 3])), w)
         else if name = ''Hypercube'' then
           (Inr (HypercubeTorch dm (- 1) 1), w)
         else if name = ''IIDGamma'' then
           (Inr (IIDGammaTorch dm 2 3), w)
         else if name = ''IIDBeta'' then
           (Inr (IIDBetaTorch dm 2 3), w)
         else if name = ''FullRosenbrock'' then
           (Inr (FullRosenbrockTorch dm (kwargs_get (kw_a_coeff kw) (1 / 20))
                   (kwargs_get (kw_b_coeff kw) (100 / 20)) (kwargs_get (kw_mu kw) 1)), w)
         else if name = ''EvenRosenbrock'' then
           (Inr (EvenRosenbrockTorch dm (kwargs_get (kw_a_coeff kw) (1 / 20))
                   (kwargs_get (kw_b_coeff kw) (100 / 20)) (kwargs_get (kw_mu kw) 1)), w)
         else if name = ''HybridRosenbrock'' then
           (Inr (HybridRosenbrockTorch (kwargs_get (kw_n1 kw) 3) (kwargs_get (kw_n2 kw) 5)
                   (kwargs_get (kw_a_coeff kw) (1 / 20))
                   (kwargs_get (kw_b_coeff kw) (100 / 20)) (kwargs_get (kw_mu kw) 1)), w)
         else if name = ''NealFunnel'' then
           (Inr (NealFunnelTorch dm (kwargs_get (kw_mu_v kw) 0) (kwargs_get (kw_sigma_v_sq kw) 9)
                   (kwargs_get (kw_mu_z kw) 0)), w)
         else if name = ''SuperFunnel'' then
           (Inr (SuperFunnelTorch (kwargs_get (kw_J kw) 5) (kwargs_get (kw_K kw) 3)
                   (kwargs_get (kw_n_per_group kw) 20)
                   (kwargs_get (kw_prior_hypermean_std kw) 10)
                   (kwargs_get (kw_prior_tau_scale kw) (25 / 10))),
            synthetic_data (kwargs_get (kw_J kw) 5) (kwargs_get (kw_K kw) 3)
              (kwargs_get (kw_n_per_group kw) 20) w)
         else (Inl (ValueError ''Unknown target distribution name''), w))
      else
        (if name = ''MultivariateNormal'' then
           (Inr (MultivariateNormal dm), w)
         else if name = ''RoughCarpet'' then
           (Inr (RoughCarpetDistribution dm False
                   (kwargs_get (kw_mode_centers kw) (Flat [- 4, 0, 4]))
                   (kwargs_get (kw_mode_weights kw) [5 / 10, 3 / 10, 2 / 10])), w)
         else if name = ''RoughCarpetScaled'' then
           (Inr (RoughCarpetDistribution dm True
                   (kwargs_get (kw_mode_centers kw) (Flat [- 4, 0, 4]))
                   (kwargs_get (kw_mode_weights kw) [5 / 10, 3 / 10, 2 / 10])), w)
         else if name = ''ThreeMixture'' then
           (Inr (ThreeMixtureDistribution dm False
                   (kwargs_get (kw_mode_centers kw) (three_mixture_centers dm))
                   (kwargs_get (kw_mode_weights kw) [1 / 3, 1 / 3, 1 / 3])), w)
         else if name = ''ThreeMixtureScaled'' then
           (Inr (ThreeMixtureDistribution dm True
                   (kwargs_get (kw_mode_centers kw) (three_mixture_centers dm))
                   (kwargs_get (kw_mode_weights kw) [1 / 3, 1 / 3, 1 / 3])), w)
         else if name = ''Hypercube'' then
           (Inr (Hypercube dm (- 1) 1), w)
         else if name = ''IIDGamma'' then
           (Inr (IIDGamma dm 2 3), w)
         else if name = ''IIDBeta'' then
           (Inr (IIDBeta dm 2 3), w)
         else if name \<in> set [''FullRosenbrock'', ''EvenRosenbrock'', ''HybridRosenbrock'',
                               ''NealFunnel'', ''SuperFunnel'']
         then (Inl (ValueError (name @ '' distribution only available with PyTorch (use_torch=True)'')), w)
         else (Inl (ValueError ''Unknown target distribution name''), w)))"

text \<open>The names that the accelerated branch, the one \<^verbatim>\<open>run_study\<close> takes, knows.\<close>

definition torch_target_names :: "string list" where
  "torch_target_names =
     [''MultivariateNormal'', ''MultivariateNormalScaled'', ''RoughCarpet'', ''RoughCarpetScaled'',
      ''ThreeMixture'', ''ThreeMixtureScaled'', ''Hypercube'', ''IIDGamma'', ''IIDBeta'',
      ''FullRosenbrock'', ''EvenRosenbrock'', ''HybridRosenbrock'', ''NealFunnel'', ''SuperFunnel'']"

definition proposal_names :: "string list" where
  "proposal_names = [''Normal'', ''Laplace'', ''UniformRadius'']"

subsection \<open>Proposal configurations\<close>

text \<open>
  The dictionary \<^verbatim>\<open>{'name': ..., 'params': {...}}\<close> is a tagged value.
  \<^verbatim>\<open>proposal_params\<close> is \<^verbatim>\<open>None\<close> or a dictionary that may hold the key
  \<^verbatim>\<open>'anisotropic'\<close>; a dictionary with that key is not empty, so the test
  \<^verbatim>\<open>proposal_params and 'anisotropic' in proposal_params\<close> is the presence of the key.
  Division by \<^verbatim>\<open>actual_dim\<close> is real division; for the dimension \<open>0\<close> NumPy gives
  \<^verbatim>\<open>inf\<close> and this model \<open>0\<close>.
\<close>

datatype variance = Scalar real | Vector "real list"

datatype proposal_config = Normal real | Laplace variance | UniformRadius real

type_synonym proposal_params = "(string \<Rightarrow> real list option) option"

definition anisotropic :: "proposal_params \<Rightarrow> real list option" where
  "anisotropic pp = (case pp of None \<Rightarrow> None | Some m \<Rightarrow> m ''anisotropic'')"

definition make_proposal_config ::
  "string \<Rightarrow> real \<Rightarrow> int \<Rightarrow> proposal_params \<Rightarrow> error + proposal_config" where
  "make_proposal_config proposal_name scale_param actual_dim pp =
     (if proposal_name = ''Normal''
      then Inr (Normal (scale_param\<^sup>2 / real_of_int (actual_dim ^ 1)))
      else if proposal_name = ''Laplace''
      then (let effective_variance = scale_param\<^sup>2 / real_of_int (actual_dim ^ 1) in
            case anisotropic pp of
              Some v \<Rightarrow> Inr (Laplace (Vector (map (\<lambda>x. x * effective_variance) v)))
            | None \<Rightarrow> Inr (Laplace (Scalar effective_variance)))
      else if proposal_name = ''UniformRadius''
      then Inr (UniformRadius scale_param)
      else Inl (ValueError (''Unknown proposal name: '' @ proposal_name)))"

subsection \<open>The grid and the selection of its best point\<close>

text \<open>\<^verbatim>\<open>np.linspace(start, stop, num)\<close>: \<open>num\<close> evenly spaced values from \<open>start\<close> to \<open>stop\<close>.\<close>

definition np_linspace :: "real \<Rightarrow> real \<Rightarrow> nat \<Rightarrow> real list" where
  "np_linspace start stop num =
     map (\<lambda>i. start + real i * ((stop - start) / real (num - 1))) [0..<num]"

text \<open>
  Python's \<^verbatim>\<open>max\<close> keeps the first of the largest elements and raises on an empty list;
  \<^verbatim>\<open>np.argmax\<close> returns the index of the first largest element. List indexing raises
  out of range.
\<close>

definition py_max :: "real list \<Rightarrow> error + real" where
  "py_max xs =
     (case xs of
        [] \<Rightarrow> Inl (ValueError ''max() arg is an empty sequence'')
      | x # rest \<Rightarrow> Inr (fold (\<lambda>y m. if m < y then y else m) rest x))"

fun argmax_loop :: "real list \<Rightarrow> nat \<Rightarrow> nat \<Rightarrow> real \<Rightarrow> nat" where
  "argmax_loop [] i best m = best"
| "argmax_loop (x # xs) i best m =
     (if m < x then argmax_loop xs (Suc i) i x else argmax_loop xs (Suc i) best m)"

definition np_argmax :: "real list \<Rightarrow> error + nat" where
  "np_argmax xs =
     (case xs of
        [] \<Rightarrow> Inl (ValueError ''attempt to get argmax of an empty sequence'')
      | x # rest \<Rightarrow> Inr (argmax_loop rest 1 0 x))"

definition py_index :: "'v list \<Rightarrow> nat \<Rightarrow> error + 'v" where
  "py_index xs i = (if i < length xs then Inr (xs ! i) else Inl (IndexError ''index out of range''))"

subsection \<open>The study\<close>

text \<open>
  The record that \<^verbatim>\<open>json.dump\<close> writes. The wall-clock fields \<^verbatim>\<open>total_time\<close> and
  \<^verbatim>\<open>times\<close> are left out.
\<close>

record data =
  target_distribution :: string
  proposal_distribution :: string
  dimension :: int
  data_num_iterations :: int
  data_seed :: int
  max_esjd :: real
  max_acceptance_rate :: real
  max_scale_param :: real
  expected_squared_jump_distances :: "real list"
  acceptance_rates :: "real list"
  scale_param_range :: "real list"

text \<open>
  The results file \<^verbatim>\<open>data/{target}_{proposal}_RWM_GPU_dim{dim}_{iters}iters_seed{seed}.json\<close>
  is named by the five values its name interpolates, and holds the record.
\<close>

record results_file =
  file_target :: string
  file_proposal :: string
  file_dim :: int
  file_iters :: int
  file_seed :: int
  file_content :: data

text \<open>
  \<^verbatim>\<open>MCMCSimulation_GPU\<close> and \<^verbatim>\<open>RandomWalkMH_GPU_Optimized\<close> are not among the source
  files. One grid point (lines 247 to 266: the constructor, \<^verbatim>\<open>generate_samples\<close>,
  \<^verbatim>\<open>acceptance_rate()\<close> and \<^verbatim>\<open>expected_squared_jump_distance()\<close>) is the parameter
  \<open>simulate\<close>: from the dimension, the proposal configuration, the number of iterations, the
  target, the seed and the burn-in, in a state \<open>'w\<close> of the process (generators, device), it
  raises or returns the acceptance rate and the ESJD. The loop stops at the first exception.
\<close>

type_synonym 'w simulate =
  "int \<Rightarrow> proposal_config \<Rightarrow> int \<Rightarrow> target \<Rightarrow> int \<Rightarrow> int \<Rightarrow> 'w \<Rightarrow> (error + real \<times> real) \<times> 'w"

fun sweep ::
  "'w simulate \<Rightarrow> string \<Rightarrow> proposal_params \<Rightarrow> int \<Rightarrow> int \<Rightarrow> target \<Rightarrow> int \<Rightarrow> int
     \<Rightarrow> real list \<Rightarrow> real list \<Rightarrow> real list \<Rightarrow> 'w \<Rightarrow> (error + real list \<times> real list) \<times> 'w" where
  "sweep simulate proposal_name pp actual_dim num_iters td seed b [] ars esjds w =
     (Inr (ars, esjds), w)"
| "sweep simulate proposal_name pp actual_dim num_iters td seed b (scale_param # rest) ars esjds w =
     (case make_proposal_config proposal_name scale_param actual_dim pp of
        Inl e \<Rightarrow> (Inl e, w)
      | Inr proposal_config \<Rightarrow>
          (case simulate actual_dim proposal_config num_iters td seed b w of
             (Inl e, w') \<Rightarrow> (Inl e, w')
           | (Inr (ar, esjd), w') \<Rightarrow>
               sweep simulate proposal_name pp actual_dim num_iters td seed b rest
                 (ars @ [ar]) (esjds @ [esjd]) w'))"

text \<open>
  \<^verbatim>\<open>run_study\<close>. It returns the exception or the record, the state of the process and the
  results files written so far. What follows the \<^verbatim>\<open>json.dump\<close> (lines 304 to 499: one
  more simulation at the best scale and the two pictures under \<^verbatim>\<open>images/\<close>) is the parameter
  \<open>plots\<close>, which may raise; it writes no results file. \<open>synthetic_data\<close> is handed to
  \<^verbatim>\<open>get_target_distribution\<close>. The choice of the device and the \<^verbatim>\<open>print\<close>s are not
  modelled.
\<close>

definition run_study ::
  "'w simulate \<Rightarrow> (data \<Rightarrow> target \<Rightarrow> 'w \<Rightarrow> error option \<times> 'w) \<Rightarrow> (int \<Rightarrow> int \<Rightarrow> int \<Rightarrow> 'w \<Rightarrow> 'w)
     \<Rightarrow> int \<Rightarrow> string \<Rightarrow> int \<Rightarrow> real \<Rightarrow> int \<Rightarrow> int \<Rightarrow> string \<Rightarrow> proposal_params \<Rightarrow> kwargs
     \<Rightarrow> 'w \<Rightarrow> results_file list \<Rightarrow> (error + data) \<times> 'w \<times> results_file list" where
  "run_study simulate plots synthetic_data dm target_name num_iters var_max seed b proposal_name pp
       kw w files =
     (let actual_dim =
            (if target_name = ''HybridRosenbrock''
             then calculate_hybrid_rosenbrock_dim (kwargs_get (kw_n1 kw) 3) (kwargs_get (kw_n2 kw) 5)
             else if target_name = ''SuperFunnel''
             then calculate_super_funnel_dim (kwargs_get (kw_J kw) 5) (kwargs_get (kw_K kw) 3)
             else dm)
      in case get_target_distribution synthetic_data target_name dm True kw w of
           (Inl e, w0) \<Rightarrow> (Inl e, w0, files)
         | (Inr td, w0) \<Rightarrow>
             (let scales = np_linspace (1 / 100) var_max 40
              in case sweep simulate proposal_name pp actual_dim num_iters td seed b scales [] [] w0 of
                   (Inl e, w1) \<Rightarrow> (Inl e, w1, files)
                 | (Inr (ars, esjds), w1) \<Rightarrow>
                     (case py_max esjds of
                        Inl e \<Rightarrow> (Inl e, w1, files)
                      | Inr m \<Rightarrow>
                     (case np_argmax esjds of
                        Inl e \<Rightarrow> (Inl e, w1, files)
                      | Inr max_esjd_index \<Rightarrow>
                     (case py_index ars max_esjd_index of
                        Inl e \<Rightarrow> (Inl e, w1, files)
                      | Inr mar \<Rightarrow>
                     (case py_index scales max_esjd_index of
                        Inl e \<Rightarrow> (Inl e, w1, files)
                      | Inr msp \<Rightarrow>
                          (let d = \<lparr>target_distribution = target_name,
                                    proposal_distribution = proposal_name,
                                    dimension = actual_dim,
                                    data_num_iterations = num_iters,
                                    data_seed = seed,
                                    max_esjd = m,
                                    max_acceptance_rate = mar,
                                    max_scale_param = msp,
                                    expected_squared_jump_distances = esjds,
                                    acceptance_rates = ars,
                                    scale_param_range = scales\<rparr>;
                               files' = files @ [\<lparr>file_target = target_name,
                                                   file_proposal = proposal_name,
                                                   file_dim = actual_dim, file_iters = num_iters,
                                                   file_seed = seed, file_content = d\<rparr>]
                           in case plots d td w1 of
                                (Some e, w2) \<Rightarrow> (Inl e, w2, files')
                              | (None, w2) \<Rightarrow> (Inr d, w2, files'))))))))"

text \<open>
  The selection in the specification's words: the grid point \<open>i\<close> maximizes the ESJD
  series, and the three persisted values are the series' values at \<open>i\<close>.
\<close>

definition maximizes_esjd :: "data \<Rightarrow> nat \<Rightarrow> bool" where
  "maximizes_esjd d i \<longleftrightarrow>
     i < length (expected_squared_jump_distances d)
     \<and> (\<forall>j < length (expected_squared_jump_distances d).
           expected_squared_jump_distances d ! j \<le> expected_squared_jump_distances d ! i)
     \<and> max_esjd d = expected_squared_jump_distances d ! i
     \<and> max_scale_param d = scale_param_range d ! i
     \<and> max_acceptance_rate d = acceptance_rates d ! i"

subsection \<open>A small concrete sweep\<close>

text \<open>
  A grid point that counts its calls in the state of the process, accepts with rate
  \<open>1 / (1 + v)\<close> for the variance or radius \<open>v\<close> of its proposal, and has the ESJD
  \<open>v / (1 + v\<^sup>2)\<close>, largest at \<open>v = 1\<close>; plots that never fail; and synthetic data whose
  drawing sets the counter to 42.
\<close>

definition proposal_scale :: "proposal_config \<Rightarrow> real" where
  "proposal_scale c =
     (case c of Normal v \<Rightarrow> v | Laplace (Scalar v) \<Rightarrow> v | Laplace (Vector vs) \<Rightarrow> sum_list vs
      | UniformRadius r \<Rightarrow> r)"

definition hill_simulate :: "nat simulate" where
  "hill_simulate actual_dim c num_iters td seed b w =
     (Inr (1 / (1 + proposal_scale c), proposal_scale c / (1 + (proposal_scale c)\<^sup>2)), Suc w)"

definition no_plots :: "data \<Rightarrow> target \<Rightarrow> nat \<Rightarrow> error option \<times> nat" where
  "no_plots d td w = (None, w)"

definition seed_42 :: "int \<Rightarrow> int \<Rightarrow> int \<Rightarrow> nat \<Rightarrow> nat" where
  "seed_42 J K n w = 42"

text \<open>No keyword argument given.\<close>

definition no_kwargs :: kwargs where
  "no_kwargs =
     \<lparr>kw_n1 = None, kw_n2 = None, kw_J = None, kw_K = None, kw_n_per_group = None,
      kw_a_coeff = None, kw_b_coeff = None, kw_mu = None, kw_mu_v = None, kw_sigma_v_sq = None,
      kw_mu_z = None, kw_prior_hypermean_std = None, kw_prior_tau_scale = None,
      kw_mode_centers = None, kw_mode_weights = None\<rparr>"


section \<open>Properties of the constructor\<close>

lemma init_Some:
  assumes "alg_new A dm sg t sy bl sw g = (a, g1)"
  shows "MCMCSimulation_init sd dm sg n (Some A) t sy seed bl sw b g =
           (let s = \<lparr>num_iterations = n, burn_in = max 0 (min b (n - 1)), target_dist = t, algorithm = a\<rparr>
            in if truthy seed
               then (case sd (the seed) of Inl e \<Rightarrow> (Inl e, g1) | Inr g2 \<Rightarrow> (Inr s, g2))
               else (Inr s, g1))"
  using assms by (simp add: MCMCSimulation_init_def)

lemma init_result:
  assumes "MCMCSimulation_init sd dm sg n (Some A) t sy seed bl sw b g = (Inr s, g')"
  shows "s = \<lparr>num_iterations = n, burn_in = max 0 (min b (n - 1)), target_dist = t,
               algorithm = fst (alg_new A dm sg t sy bl sw g)\<rparr>"
proof -
  obtain a g1 where new: "alg_new A dm sg t sy bl sw g = (a, g1)"
    by (cases "alg_new A dm sg t sy bl sw g")
  from assms show ?thesis
    unfolding init_Some [OF new] new
    by (auto simp: Let_def split: if_splits sum.splits)
qed

lemma init_counter_MH:
  "MCMCSimulation_init counter_seed 2 1 10 (Some counter_MH) () True (Some 42) None None 25 (7::nat)
     = (Inr \<lparr>num_iterations = 10, burn_in = 9, target_dist = (), algorithm = spec_new [0, 0]\<rparr>, 42)"
  by (simp add: MCMCSimulation_init_def counter_MH_def spec_MHAlgorithm_def truthy_def counter_seed_def)

text \<open>
  C6. For a positive number of iterations, the burn-in that the constructor stores lies in
  \<open>[0, num_iterations - 1]\<close> whatever integer was passed: a negative one becomes \<open>0\<close>, one
  of at least \<open>num_iterations\<close> becomes \<open>num_iterations - 1\<close>, and any other is kept.
\<close>

theorem burn_in_clamped:
  assumes "0 < n"
    and "MCMCSimulation_init sd dm sg n (Some A) t sy seed bl sw b g = (Inr s, g')"
  shows "0 \<le> burn_in s \<and> burn_in s \<le> n - 1
         \<and> burn_in s = (if b < 0 then 0 else if n \<le> b then n - 1 else b)"
proof -
  from init_result [OF assms(2)] have "burn_in s = max 0 (min b (n - 1))"
    by simp
  with assms(1) show ?thesis by auto
qed

theorem burn_in_clamped_witness:
  "(0::int) < 10
   \<and> MCMCSimulation_init counter_seed 2 1 10 (Some counter_MH) () True (Some 42) None None 25 (7::nat)
     = (Inr \<lparr>num_iterations = 10, burn_in = 9, target_dist = (), algorithm = spec_new [0, 0]\<rparr>, 42)
   \<and> (0 \<le> burn_in \<lparr>num_iterations = 10, burn_in = 9, target_dist = (), algorithm = spec_new [0, 0]\<rparr>
      \<and> burn_in \<lparr>num_iterations = 10, burn_in = 9, target_dist = (), algorithm = spec_new [0, 0]\<rparr> \<le> 10 - 1
      \<and> burn_in \<lparr>num_iterations = 10, burn_in = 9, target_dist = (), algorithm = spec_new [0, 0]\<rparr>
          = (if (25::int) < 0 then 0 else if 10 \<le> (25::int) then 10 - 1 else 25))"
proof -
  have pos: "(0::int) < 10" by simp
  note run = init_counter_MH
  from burn_in_clamped [OF pos run] pos run show ?thesis
    by blast
qed

text \<open>Without the hypothesis the interval is empty, and the stored burn-in is \<open>0\<close>.\<close>

lemma burn_in_nonpositive_iterations:
  assumes "n \<le> 0"
    and "MCMCSimulation_init sd dm sg n (Some A) t sy seed bl sw b g = (Inr s, g')"
  shows "burn_in s = 0"
  using init_result [OF assms(2)] assms(1) by simp

text \<open>
  C10. The constructor seeds the generator only for a truthy seed. For the seed \<open>0\<close> and for
  no seed the result is the same and does not depend on the seeding function at all: the
  generator is left as the algorithm's constructor left it. For a seed other than \<open>0\<close> that
  NumPy accepts, the generator is the one the seed determines.
\<close>

theorem seed_zero_is_no_seed:
  "MCMCSimulation_init sd dm sg n C t sy (Some 0) bl sw b g
     = MCMCSimulation_init sd' dm sg n C t sy None bl sw b g
   \<and> snd (MCMCSimulation_init sd dm sg n (Some A) t sy None bl sw b g)
     = snd (alg_new A dm sg t sy bl sw g)
   \<and> (k \<noteq> 0 \<longrightarrow> sd k = Inr g2 \<longrightarrow>
        snd (MCMCSimulation_init sd dm sg n (Some A) t sy (Some k) bl sw b g) = g2)"
proof -
  obtain a g1 where new: "alg_new A dm sg t sy bl sw g = (a, g1)"
    by (cases "alg_new A dm sg t sy bl sw g")
  have "MCMCSimulation_init sd dm sg n C t sy (Some 0) bl sw b g
          = MCMCSimulation_init sd' dm sg n C t sy None bl sw b g"
    by (simp add: MCMCSimulation_init_def truthy_def split: option.splits prod.splits)
  moreover have "snd (MCMCSimulation_init sd dm sg n (Some A) t sy None bl sw b g)
          = snd (alg_new A dm sg t sy bl sw g)"
    by (simp add: init_Some [OF new] new truthy_def)
  moreover have "k \<noteq> 0 \<longrightarrow> sd k = Inr g2 \<longrightarrow>
        snd (MCMCSimulation_init sd dm sg n (Some A) t sy (Some k) bl sw b g) = g2"
    by (simp add: init_Some [OF new] truthy_def)
  ultimately show ?thesis by blast
qed

theorem seed_zero_is_no_seed_witness:
  "(42::int) \<noteq> 0 \<and> counter_seed 42 = Inr 42
   \<and> snd (MCMCSimulation_init counter_seed 2 1 10 (Some counter_MH) () True (Some 42) None None 25 (7::nat)) = 42
   \<and> MCMCSimulation_init counter_seed 2 1 10 (Some counter_MH) () True (Some 0) None None 25 (7::nat)
     = MCMCSimulation_init (\<lambda>k. Inr 0) 2 1 10 (Some counter_MH) () True None None None 25 (7::nat)"
proof -
  have ne: "(42::int) \<noteq> 0" by simp
  have sd: "counter_seed 42 = Inr 42" by (simp add: counter_seed_def)
  note inst = seed_zero_is_no_seed [of counter_seed 2 1 10 "Some counter_MH" "()" True None None 25 7
      "\<lambda>k. Inr 0" counter_MH 42 42]
  from inst ne sd show ?thesis by blast
qed

section \<open>Properties of the methods\<close>

lemma sum_list_map2_nth:
  "sum_list (map2 f xs ys) = (\<Sum>i < min (length xs) (length ys). f (xs ! i) (ys ! i))"
proof -
  have "sum_list (map2 f xs ys) = (\<Sum>i = 0..<length (map2 f xs ys). map2 f xs ys ! i)"
    by (rule sum_list_sum_nth)
  also have "\<dots> = (\<Sum>i < min (length xs) (length ys). f (xs ! i) (ys ! i))"
    by (rule sum.cong) (auto simp: atLeast0LessThan)
  finally show ?thesis .
qed

lemma sq_dist_spec: "sq_dist p q = spec_sq_euclid p q"
  by (simp add: sq_dist_def spec_sq_euclid_def sum_list_map2_nth)

lemma length_squared_jumps: "length (squared_jumps c) = length c - 1"
  by (simp add: squared_jumps_def)

lemma squared_jumps_nonempty: "2 \<le> length c \<Longrightarrow> squared_jumps c \<noteq> []"
  using length_squared_jumps [of c] by (cases "squared_jumps c") auto

lemma sum_squared_jumps:
  "sum_list (squared_jumps c) = (\<Sum>i < length c - 1. spec_sq_euclid (c ! Suc i) (c ! i))"
proof -
  have "sum_list (squared_jumps c)
          = (\<Sum>i < min (length (tl c)) (length (butlast c)). sq_dist (tl c ! i) (butlast c ! i))"
    by (simp add: squared_jumps_def sum_list_map2_nth)
  also have "\<dots> = (\<Sum>i < length c - 1. spec_sq_euclid (c ! Suc i) (c ! i))"
    by (rule sum.cong) (auto simp: nth_tl nth_butlast sq_dist_spec)
  finally show ?thesis .
qed

lemma np_mean_squared_jumps:
  "np_mean (squared_jumps c)
     = (\<Sum>i < length c - 1. spec_sq_euclid (c ! Suc i) (c ! i)) / real (length c - 1)"
  by (simp add: np_mean_def sum_squared_jumps length_squared_jumps)


lemma spec_MHAlgorithm_sel:
  "alg_step (spec_MHAlgorithm sa ac x0) = spec_step sa ac"
  "alg_reset (spec_MHAlgorithm sa ac x0) = (\<lambda>a. spec_new x0)"
  "alg_chain (spec_MHAlgorithm sa ac x0) = history"
  "alg_new (spec_MHAlgorithm sa ac x0) dm sg t sy bl sw g = (spec_new x0, g)"
  by (simp_all add: spec_MHAlgorithm_def)

lemma spec_step_length:
  "spec_step sa ac a g = (a1, g1) \<Longrightarrow> length (history a1) = Suc (length (history a))"
  by (auto simp: spec_step_def Let_def split: prod.splits if_splits)

lemma steps_spec_length:
  "steps (spec_step sa ac) k a g = (a', g') \<Longrightarrow> length (history a') = length (history a) + k"
proof (induction k arbitrary: a g)
  case 0
  then show ?case by simp
next
  case (Suc k)
  obtain a1 g1 where st: "spec_step sa ac a g = (a1, g1)"
    by (cases "spec_step sa ac a g")
  with Suc.prems have "steps (spec_step sa ac) k a1 g1 = (a', g')"
    by simp
  from Suc.IH [OF this] spec_step_length [OF st] show ?case by simp
qed

lemma has_run_spec:
  "has_run (spec_MHAlgorithm sa ac x0) s = (1 < length (history (algorithm s)))"
  by (simp add: has_run_def spec_MHAlgorithm_sel)

lemma reset_spec: "reset (spec_MHAlgorithm sa ac x0) s = s\<lparr>algorithm := spec_new x0\<rparr>"
  by (simp add: reset_def spec_MHAlgorithm_sel)

lemma generate_samples_spec:
  assumes "\<not> has_run (spec_MHAlgorithm sa ac x0) s"
  shows "\<exists>c s1 g1. generate_samples (spec_MHAlgorithm sa ac x0) s g = (Inr c, s1, g1)
           \<and> c = history (algorithm s1)
           \<and> num_iterations s1 = num_iterations s
           \<and> burn_in s1 = burn_in s
           \<and> length c = length (history (algorithm s)) + nat (num_iterations s)"
proof -
  obtain a' g' where st: "steps (spec_step sa ac) (nat (num_iterations s)) (algorithm s) g = (a', g')"
    by (cases "steps (spec_step sa ac) (nat (num_iterations s)) (algorithm s) g")
  from steps_spec_length [OF st]
  have len: "length (history a') = length (history (algorithm s)) + nat (num_iterations s)" .
  from assms st have "generate_samples (spec_MHAlgorithm sa ac x0) s g = (Inr (history a'), s\<lparr>algorithm := a'\<rparr>, g')"
    by (simp add: generate_samples_def spec_MHAlgorithm_sel)
  with len show ?thesis by simp
qed

text \<open>
  C3. A simulation on which \<^verbatim>\<open>has_run()\<close> holds refuses \<^verbatim>\<open>generate_samples()\<close> with the
  \<^verbatim>\<open>ValueError\<close> that asks for a reset, and leaves the object and the generator as they
  were. With the algorithm of the specification: after \<^verbatim>\<open>reset()\<close>, \<^verbatim>\<open>has_run()\<close> is
  false and a run succeeds, returning the initial state followed by one state for each
  iteration; and when there is at least one iteration, a second call right after that run
  fails in the same way.
\<close>

theorem second_run_needs_reset:
  "(has_run A s \<longrightarrow>
      generate_samples A s g
        = (Inl (ValueError ''Please reset the algorithm before running it again.''), s, g))
   \<and> \<not> has_run (spec_MHAlgorithm sa ac x0) (reset (spec_MHAlgorithm sa ac x0) s')
   \<and> (\<exists>c s1 g1. generate_samples (spec_MHAlgorithm sa ac x0) (reset (spec_MHAlgorithm sa ac x0) s') g'
                   = (Inr c, s1, g1)
          \<and> length c = nat (num_iterations s') + 1
          \<and> (1 \<le> num_iterations s' \<longrightarrow>
               generate_samples (spec_MHAlgorithm sa ac x0) s1 g1
                 = (Inl (ValueError ''Please reset the algorithm before running it again.''), s1, g1)))"
proof (intro conjI impI)
  assume "has_run A s"
  then show "generate_samples A s g
      = (Inl (ValueError ''Please reset the algorithm before running it again.''), s, g)"
    by (simp add: generate_samples_def)
next
  show nr: "\<not> has_run (spec_MHAlgorithm sa ac x0) (reset (spec_MHAlgorithm sa ac x0) s')"
    by (simp add: has_run_spec reset_spec spec_new_def)
  from generate_samples_spec [OF nr, of g']
  obtain c s1 g1 where run: "generate_samples (spec_MHAlgorithm sa ac x0) (reset (spec_MHAlgorithm sa ac x0) s') g'
                   = (Inr c, s1, g1)"
    and c: "c = history (algorithm s1)"
    and len: "length c = nat (num_iterations s') + 1"
    by (auto simp: reset_spec spec_new_def)
  have "1 \<le> num_iterations s' \<longrightarrow>
               generate_samples (spec_MHAlgorithm sa ac x0) s1 g1
                 = (Inl (ValueError ''Please reset the algorithm before running it again.''), s1, g1)"
  proof
    assume "1 \<le> num_iterations s'"
    with len c have "has_run (spec_MHAlgorithm sa ac x0) s1"
      by (simp add: has_run_spec)
    then show "generate_samples (spec_MHAlgorithm sa ac x0) s1 g1
                 = (Inl (ValueError ''Please reset the algorithm before running it again.''), s1, g1)"
      by (simp add: generate_samples_def)
  qed
  with run len
  show "\<exists>c s1 g1. generate_samples (spec_MHAlgorithm sa ac x0) (reset (spec_MHAlgorithm sa ac x0) s') g'
                   = (Inr c, s1, g1)
          \<and> length c = nat (num_iterations s') + 1
          \<and> (1 \<le> num_iterations s' \<longrightarrow>
               generate_samples (spec_MHAlgorithm sa ac x0) s1 g1
                 = (Inl (ValueError ''Please reset the algorithm before running it again.''), s1, g1))"
    by blast
qed

theorem second_run_needs_reset_witness:
  "has_run counter_MH
     \<lparr>num_iterations = 2, burn_in = 1, target_dist = (),
        algorithm = \<lparr>current = [16, 16], history = [[0, 0], [7, 7], [16, 16]], accepted_count = 2\<rparr>\<rparr>
   \<and> generate_samples counter_MH
        \<lparr>num_iterations = 2, burn_in = 1, target_dist = (),
           algorithm = \<lparr>current = [16, 16], history = [[0, 0], [7, 7], [16, 16]], accepted_count = 2\<rparr>\<rparr>
        (11::nat)
      = (Inl (ValueError ''Please reset the algorithm before running it again.''),
         \<lparr>num_iterations = 2, burn_in = 1, target_dist = (),
            algorithm = \<lparr>current = [16, 16], history = [[0, 0], [7, 7], [16, 16]], accepted_count = 2\<rparr>\<rparr>,
         11)
   \<and> (1::int) \<le> 2
   \<and> (\<exists>c s1 g1. generate_samples counter_MH
          (reset counter_MH
             \<lparr>num_iterations = 2, burn_in = 1, target_dist = (),
                algorithm = \<lparr>current = [16, 16], history = [[0, 0], [7, 7], [16, 16]], accepted_count = 2\<rparr>\<rparr>)
          (11::nat) = (Inr c, s1, g1)
        \<and> length c = 3
        \<and> generate_samples counter_MH s1 g1
            = (Inl (ValueError ''Please reset the algorithm before running it again.''), s1, g1))"
proof -
  let ?S = "\<lparr>num_iterations = 2, burn_in = 1, target_dist = (),
        algorithm = \<lparr>current = [16, 16], history = [[0, 0], [7, 7], [16, 16]], accepted_count = 2\<rparr>\<rparr>"
  have ran: "has_run counter_MH ?S"
    by (simp add: counter_MH_def has_run_spec)
  have n: "(1::int) \<le> num_iterations ?S" "nat (num_iterations ?S) + 1 = 3"
    by simp_all
  from second_run_needs_reset [of counter_MH ?S 11 shift_sample mod3_accept "[0, 0]" ?S 11,
      folded counter_MH_def] ran n
  show ?thesis by auto
qed

text \<open>
  C5. On a simulation for which \<^verbatim>\<open>has_run()\<close> is false, which is the state of a simulation
  before its run is complete (after construction and after \<^verbatim>\<open>reset()\<close>), both diagnostics
  raise the \<^verbatim>\<open>ValueError\<close> saying that the algorithm has not been run, and return no value.
\<close>

theorem diagnostics_need_a_run:
  assumes "\<not> has_run A s"
  shows "acceptance_rate A s = Inl (ValueError ''The algorithm has not been run yet.'')
         \<and> expected_squared_jump_distance A s = Inl (ValueError ''The algorithm has not been run yet.'')"
  using assms by (simp add: acceptance_rate_def expected_squared_jump_distance_def)

theorem diagnostics_need_a_run_witness:
  "\<not> has_run counter_MH \<lparr>num_iterations = 10, burn_in = 9, target_dist = (), algorithm = spec_new [0, 0]\<rparr>
   \<and> acceptance_rate counter_MH
        \<lparr>num_iterations = 10, burn_in = 9, target_dist = (), algorithm = spec_new [0, 0]\<rparr>
      = Inl (ValueError ''The algorithm has not been run yet.'')
   \<and> expected_squared_jump_distance counter_MH
        \<lparr>num_iterations = 10, burn_in = 9, target_dist = (), algorithm = spec_new [0, 0]\<rparr>
      = Inl (ValueError ''The algorithm has not been run yet.'')"
proof -
  have fresh: "\<not> has_run counter_MH
      \<lparr>num_iterations = 10, burn_in = 9, target_dist = (), algorithm = spec_new [0, 0]\<rparr>"
    by (simp add: counter_MH_def has_run_spec spec_new_def)
  from diagnostics_need_a_run [OF fresh] fresh show ?thesis by blast
qed

text \<open>
  The states in which a simulation built on the specification's algorithm waits for its
  run: right after construction and right after \<^verbatim>\<open>reset()\<close>.
\<close>

lemma fresh_not_run:
  assumes "MCMCSimulation_init sd dm sg n (Some (spec_MHAlgorithm sa ac x0)) t sy seed bl sw b g = (Inr s, g')"
  shows "\<not> has_run (spec_MHAlgorithm sa ac x0) s"
  using init_result [OF assms] by (simp add: has_run_spec spec_MHAlgorithm_sel spec_new_def)

text \<open>
  C4, as the code has it. The constructor does not check the number of iterations. For a
  non-positive one it fails only if NumPy refuses the seed; otherwise it returns a
  simulation that stores the number as passed and the burn-in \<open>0\<close>, and a run of that
  simulation makes no step: it returns the chain as it is and changes nothing.
\<close>

theorem nonpositive_iterations_accepted:
  assumes "n \<le> 0"
  shows "fst (MCMCSimulation_init sd dm sg n (Some A) t sy seed bl sw b g)
           = (if truthy seed
              then (case sd (the seed) of
                      Inl e \<Rightarrow> Inl e
                    | Inr g2 \<Rightarrow> Inr \<lparr>num_iterations = n, burn_in = 0, target_dist = t,
                                      algorithm = fst (alg_new A dm sg t sy bl sw g)\<rparr>)
              else Inr \<lparr>num_iterations = n, burn_in = 0, target_dist = t,
                         algorithm = fst (alg_new A dm sg t sy bl sw g)\<rparr>)
         \<and> (num_iterations s = n \<longrightarrow> \<not> has_run A s \<longrightarrow>
              generate_samples A s g' = (Inr (alg_chain A (algorithm s)), s, g'))"
proof -
  obtain a g1 where new: "alg_new A dm sg t sy bl sw g = (a, g1)"
    by (cases "alg_new A dm sg t sy bl sw g")
  from assms have b0: "max 0 (min b (n - 1)) = 0" by simp
  have "fst (MCMCSimulation_init sd dm sg n (Some A) t sy seed bl sw b g)
           = (if truthy seed
              then (case sd (the seed) of
                      Inl e \<Rightarrow> Inl e
                    | Inr g2 \<Rightarrow> Inr \<lparr>num_iterations = n, burn_in = 0, target_dist = t,
                                      algorithm = fst (alg_new A dm sg t sy bl sw g)\<rparr>)
              else Inr \<lparr>num_iterations = n, burn_in = 0, target_dist = t,
                         algorithm = fst (alg_new A dm sg t sy bl sw g)\<rparr>)"
    by (simp add: init_Some [OF new] new b0 Let_def split: sum.splits)
  moreover have "num_iterations s = n \<longrightarrow> \<not> has_run A s \<longrightarrow>
              generate_samples A s g' = (Inr (alg_chain A (algorithm s)), s, g')"
    using assms by (simp add: generate_samples_def)
  ultimately show ?thesis by blast
qed

theorem nonpositive_iterations_accepted_witness:
  "(0::int) \<le> 0
   \<and> fst (MCMCSimulation_init counter_seed 2 1 0 (Some counter_MH) () True (Some 42) None None 3 (7::nat))
       = Inr \<lparr>num_iterations = 0, burn_in = 0, target_dist = (), algorithm = spec_new [0, 0]\<rparr>
   \<and> \<not> has_run counter_MH \<lparr>num_iterations = 0, burn_in = 0, target_dist = (), algorithm = spec_new [0, 0]\<rparr>
   \<and> generate_samples counter_MH
         \<lparr>num_iterations = 0, burn_in = 0, target_dist = (), algorithm = spec_new [0, 0]\<rparr> (42::nat)
       = (Inr [[0, 0]], \<lparr>num_iterations = 0, burn_in = 0, target_dist = (), algorithm = spec_new [0, 0]\<rparr>, 42)"
proof -
  let ?S = "\<lparr>num_iterations = 0, burn_in = 0, target_dist = (), algorithm = spec_new [0, 0]\<rparr>"
  have le: "(0::int) \<le> 0" by simp
  have fresh: "\<not> has_run counter_MH ?S"
    by (simp add: counter_MH_def has_run_spec spec_new_def)
  have sd: "truthy (Some 42)" "counter_seed (the (Some 42)) = Inr 42"
    by (simp_all add: truthy_def counter_seed_def)
  have ev: "fst (alg_new counter_MH 2 1 () True None None (7::nat)) = spec_new [0, 0]"
    "alg_chain counter_MH (algorithm ?S) = [[0, 0]]" "num_iterations ?S = 0"
    by (simp_all add: counter_MH_def spec_MHAlgorithm_sel spec_new_def)
  from nonpositive_iterations_accepted [OF le, of counter_seed 2 1 counter_MH "()" True "Some 42" None None 3 7
      ?S 42] sd ev fresh le
  show ?thesis by simp
qed

text \<open>
  C4, as the claim has it, fails: with \<open>num_iterations = 0\<close> the constructor returns a
  simulation, not an error.
\<close>

theorem nonpositive_iterations_counterexample:
  "MCMCSimulation_init counter_seed 2 1 0 (Some counter_MH) () True (Some 42) None None 3 (7::nat)
     = (Inr \<lparr>num_iterations = 0, burn_in = 0, target_dist = (), algorithm = spec_new [0, 0]\<rparr>, 42)"
  by (simp add: MCMCSimulation_init_def counter_MH_def spec_MHAlgorithm_def truthy_def counter_seed_def)


lemma esjd_refines_spec:
  assumes "has_run A s" and "0 \<le> burn_in s"
  shows "expected_squared_jump_distance A s
           = Inr (spec_esjd (burn_in s) (alg_chain A (algorithm s)))"
proof -
  let ?c = "alg_chain A (algorithm s)"
  from assms(1) have len: "1 < length ?c" by (simp add: has_run_def)
  consider (cut) "0 < burn_in s" "burn_in s + 1 < int (length ?c)"
    | (whole) "burn_in s = 0"
    | (short) "0 < burn_in s" "int (length ?c) \<le> burn_in s + 1"
    using assms(2) by linarith
  then show ?thesis
  proof cases
    case cut
    then have "2 \<le> length (drop (nat (burn_in s)) ?c)" by simp
    then have "spec_esjd (burn_in s) ?c = np_mean (squared_jumps (drop (nat (burn_in s)) ?c))"
      by (simp add: spec_esjd_def post_burn_in_def Let_def np_mean_squared_jumps)
    with cut assms(1) show ?thesis
      by (simp add: expected_squared_jump_distance_def Let_def)
  next
    case whole
    with len have "spec_esjd (burn_in s) ?c = np_mean (squared_jumps ?c)"
      by (simp add: spec_esjd_def post_burn_in_def Let_def np_mean_squared_jumps)
    with whole assms(1) show ?thesis
      by (simp add: expected_squared_jump_distance_def Let_def)
  next
    case short
    then have "length (drop (nat (burn_in s)) ?c) < 2" by simp
    then have "spec_esjd (burn_in s) ?c = 0"
      by (simp add: spec_esjd_def post_burn_in_def Let_def)
    with short assms(1) show ?thesis
      by (simp add: expected_squared_jump_distance_def Let_def)
  qed
qed

lemma squared_jumps_pair: "squared_jumps [p, q] = [sq_dist q p]"
  by (simp add: squared_jumps_def)

lemma drop_to_last_two:
  assumes "length c = Suc (Suc k)"
  shows "drop k c = [c ! k, c ! Suc k]"
proof -
  have one: "drop k c = c ! k # drop (Suc k) c"
    by (rule Cons_nth_drop_Suc [symmetric]) (simp add: assms)
  have two: "drop (Suc k) c = c ! Suc k # drop (Suc (Suc k)) c"
    by (rule Cons_nth_drop_Suc [symmetric]) (simp add: assms)
  have "drop (Suc (Suc k)) c = []" by (simp add: assms)
  with one two show ?thesis by simp
qed

lemma esjd_last_jump:
  assumes "has_run A s" and "1 \<le> num_iterations s"
    and "burn_in s = num_iterations s - 1"
    and "length (alg_chain A (algorithm s)) = nat (num_iterations s) + 1"
  shows "expected_squared_jump_distance A s
           = Inr (sq_dist (alg_chain A (algorithm s) ! nat (num_iterations s))
                          (alg_chain A (algorithm s) ! (nat (num_iterations s) - 1)))"
proof -
  let ?c = "alg_chain A (algorithm s)"
  let ?n = "nat (num_iterations s)"
  obtain k where k: "?n = Suc k" using assms(2) by (cases ?n) auto
  with assms(4) have len: "length ?c = Suc (Suc k)" by simp
  from k assms(2,3) have b: "nat (burn_in s) = k" "burn_in s = int k" by simp_all
  have mean: "np_mean (squared_jumps (drop k ?c)) = sq_dist (?c ! Suc k) (?c ! k)"
    by (simp add: drop_to_last_two [OF len] squared_jumps_pair np_mean_def)
  show ?thesis
  proof (cases k)
    case 0
    with b len assms(1) mean show ?thesis
      by (simp add: expected_squared_jump_distance_def Let_def k)
  next
    case (Suc j)
    with b len assms(1) mean show ?thesis
      by (simp add: expected_squared_jump_distance_def Let_def k)
  qed
qed

text \<open>
  C1, as the code has it. On a simulation that has run, with the non-negative burn-in that
  the constructor stores, \<^verbatim>\<open>expected_squared_jump_distance()\<close> returns the specification's
  value for the states from index \<open>burn_in\<close> on: the mean squared distance between
  neighbours, and \<open>0\<close> for fewer than two such states. Since the stored burn-in is at most
  \<open>num_iterations - 1\<close>, a completed run of \<open>num_iterations \<ge> 1\<close> steps always has two such
  states: for a burn-in of \<open>num_iterations - 1\<close> or more the result is the squared length of
  the last jump.
\<close>

theorem esjd_post_burn_in:
  assumes "has_run A s" and "0 \<le> burn_in s"
  shows "expected_squared_jump_distance A s
           = Inr (spec_esjd (burn_in s) (alg_chain A (algorithm s)))
         \<and> (1 \<le> num_iterations s \<longrightarrow> num_iterations s - 1 \<le> b \<longrightarrow>
              burn_in s = max 0 (min b (num_iterations s - 1)) \<longrightarrow>
              length (alg_chain A (algorithm s)) = nat (num_iterations s) + 1 \<longrightarrow>
              expected_squared_jump_distance A s
                = Inr (sq_dist (alg_chain A (algorithm s) ! nat (num_iterations s))
                               (alg_chain A (algorithm s) ! (nat (num_iterations s) - 1))))"
proof (intro conjI impI)
  show "expected_squared_jump_distance A s
           = Inr (spec_esjd (burn_in s) (alg_chain A (algorithm s)))"
    by (rule esjd_refines_spec [OF assms])
next
  assume n: "1 \<le> num_iterations s" and b: "num_iterations s - 1 \<le> b"
    and stored: "burn_in s = max 0 (min b (num_iterations s - 1))"
    and len: "length (alg_chain A (algorithm s)) = nat (num_iterations s) + 1"
  from n b stored have "burn_in s = num_iterations s - 1" by simp
  from esjd_last_jump [OF assms(1) n this len]
  show "expected_squared_jump_distance A s
                = Inr (sq_dist (alg_chain A (algorithm s) ! nat (num_iterations s))
                               (alg_chain A (algorithm s) ! (nat (num_iterations s) - 1)))" .
qed

theorem esjd_post_burn_in_witness:
  "has_run counter_MH
     \<lparr>num_iterations = 2, burn_in = 1, target_dist = (),
        algorithm = \<lparr>current = [16, 16], history = [[0, 0], [7, 7], [16, 16]], accepted_count = 2\<rparr>\<rparr>
   \<and> (0::int) \<le> 1 \<and> (1::int) \<le> 2 \<and> (2::int) - 1 \<le> 5 \<and> (1::int) = max 0 (min 5 (2 - 1))
   \<and> length [[0, 0], [7, 7], [16, 16::real]] = nat 2 + 1
   \<and> expected_squared_jump_distance counter_MH
     \<lparr>num_iterations = 2, burn_in = 1, target_dist = (),
        algorithm = \<lparr>current = [16, 16], history = [[0, 0], [7, 7], [16, 16]], accepted_count = 2\<rparr>\<rparr>
      = Inr (spec_esjd 1 [[0, 0], [7, 7], [16, 16]])
   \<and> expected_squared_jump_distance counter_MH
     \<lparr>num_iterations = 2, burn_in = 1, target_dist = (),
        algorithm = \<lparr>current = [16, 16], history = [[0, 0], [7, 7], [16, 16]], accepted_count = 2\<rparr>\<rparr>
      = Inr (sq_dist ([[0, 0], [7, 7], [16, 16]] ! nat 2) ([[0, 0], [7, 7], [16, 16]] ! (nat 2 - 1)))"
proof -
  let ?S = "\<lparr>num_iterations = 2, burn_in = 1, target_dist = (),
        algorithm = \<lparr>current = [16, 16], history = [[0, 0], [7, 7], [16, 16]], accepted_count = 2\<rparr>\<rparr>"
  have ran: "has_run counter_MH ?S"
    by (simp add: counter_MH_def has_run_spec)
  have b: "0 \<le> burn_in ?S" by simp
  have ev: "alg_chain counter_MH (algorithm ?S) = [[0, 0], [7, 7], [16, 16]]"
    "num_iterations ?S = 2" "burn_in ?S = 1"
    by (simp_all add: counter_MH_def spec_MHAlgorithm_sel)
  have ar: "(1::int) \<le> 2" "(2::int) - 1 \<le> 5" "(1::int) = max 0 (min 5 (2 - 1))"
    "length [[0, 0], [7, 7], [16, 16::real]] = nat 2 + 1"
    by simp_all
  have le: "(0::int) \<le> 1" by simp
  from esjd_post_burn_in [OF ran b, of 5, unfolded ev] ran ar le
  show ?thesis by blast
qed

text \<open>
  C1, as the claim has it, fails in its last part: a run of two iterations built with
  \<open>burn_in = 5 \<ge> num_iterations - 1\<close> has the diagnostic \<open>162\<close>, not \<open>0\<close>.
\<close>

theorem esjd_large_burn_in_counterexample:
  "esjd_of_run counter_MH
     (fst (construct_and_run counter_seed 2 1 2 counter_MH () True (Some 7) None None 5 (13::nat)))
     = Inr 162"
  by code_simp


section \<open>Reproducibility\<close>

lemma construct_and_run_seeded:
  assumes "k \<noteq> 0" and "sd k = Inr g2"
  shows "construct_and_run sd dm sg n A t sy (Some k) bl sw b g
           = (case generate_samples A
                     \<lparr>num_iterations = n, burn_in = max 0 (min b (n - 1)), target_dist = t,
                        algorithm = fst (alg_new A dm sg t sy bl sw g)\<rparr> g2 of
                (Inl e, s', g3) \<Rightarrow> (Inl e, g3)
              | (Inr c, s', g3) \<Rightarrow> (Inr (c, s'), g3))"
proof -
  obtain a g1 where new: "alg_new A dm sg t sy bl sw g = (a, g1)"
    by (cases "alg_new A dm sg t sy bl sw g")
  from assms show ?thesis
    by (simp add: construct_and_run_def init_Some [OF new] new truthy_def)
qed

lemma construct_and_run_refused:
  assumes "k \<noteq> 0" and "sd k = Inl e"
  shows "fst (construct_and_run sd dm sg n A t sy (Some k) bl sw b g) = Inl e"
proof -
  obtain a g1 where new: "alg_new A dm sg t sy bl sw g = (a, g1)"
    by (cases "alg_new A dm sg t sy bl sw g")
  from assms show ?thesis
    by (simp add: construct_and_run_def init_Some [OF new] truthy_def)
qed

lemma seeded_run_independent:
  assumes "k \<noteq> 0"
    and "\<forall>g g'. fst (alg_new A dm sg t sy bl sw g) = fst (alg_new A dm sg t sy bl sw g')"
  shows "fst (construct_and_run sd dm sg n A t sy (Some k) bl sw b g)
           = fst (construct_and_run sd dm sg n A t sy (Some k) bl sw b g')"
proof (cases "sd k")
  case (Inl e)
  from assms(1) Inl show ?thesis
    by (simp add: construct_and_run_refused [where sd = sd and k = k and e = e])
next
  case (Inr g2)
  from assms(2) have "fst (alg_new A dm sg t sy bl sw g) = fst (alg_new A dm sg t sy bl sw g')"
    by blast
  with assms(1) Inr show ?thesis
    by (simp add: construct_and_run_seeded [where sd = sd and k = k and ?g2.0 = g2])
qed

text \<open>
  The seeded path. The generator is NumPy's process-wide one; the constructor seeds it,
  after it has built the algorithm, when the seed is not \<open>0\<close>. For such a seed, and an
  algorithm whose construction does not depend on the generator, the outcome of building
  and running a configuration (the chain and the finished object, or the error) is the
  same from every generator state, so two runs in a row return the same chain; when NumPy
  accepts the seed, the chain is the one that the run from the seeded generator returns.
\<close>

lemma seeded_runs_repeat:
  assumes "k \<noteq> 0"
    and "\<forall>g g'. fst (alg_new A dm sg t sy bl sw g) = fst (alg_new A dm sg t sy bl sw g')"
  shows "fst (construct_and_run sd dm sg n A t sy (Some k) bl sw b g)
           = fst (construct_and_run sd dm sg n A t sy (Some k) bl sw b g')
         \<and> fst (run_twice sd dm sg n A t sy (Some k) bl sw b g)
           = snd (run_twice sd dm sg n A t sy (Some k) bl sw b g)
         \<and> (sd k = Inr g2 \<longrightarrow>
              chain_of (fst (construct_and_run sd dm sg n A t sy (Some k) bl sw b g))
                = fst (generate_samples A
                         \<lparr>num_iterations = n, burn_in = max 0 (min b (n - 1)), target_dist = t,
                            algorithm = fst (alg_new A dm sg t sy bl sw g)\<rparr> g2))"
proof (intro conjI impI)
  show "fst (construct_and_run sd dm sg n A t sy (Some k) bl sw b g)
           = fst (construct_and_run sd dm sg n A t sy (Some k) bl sw b g')"
    by (rule seeded_run_independent [OF assms])
next
  obtain r1 g1 where first: "construct_and_run sd dm sg n A t sy (Some k) bl sw b g = (r1, g1)"
    by (cases "construct_and_run sd dm sg n A t sy (Some k) bl sw b g")
  obtain r2 g3 where second: "construct_and_run sd dm sg n A t sy (Some k) bl sw b g1 = (r2, g3)"
    by (cases "construct_and_run sd dm sg n A t sy (Some k) bl sw b g1")
  from seeded_run_independent [OF assms, of sd n b g g1] first second have "r1 = r2"
    by simp
  with first second
  show "fst (run_twice sd dm sg n A t sy (Some k) bl sw b g)
           = snd (run_twice sd dm sg n A t sy (Some k) bl sw b g)"
    by (simp add: run_twice_def)
next
  assume "sd k = Inr g2"
  with assms(1)
  have "construct_and_run sd dm sg n A t sy (Some k) bl sw b g
           = (case generate_samples A
                     \<lparr>num_iterations = n, burn_in = max 0 (min b (n - 1)), target_dist = t,
                        algorithm = fst (alg_new A dm sg t sy bl sw g)\<rparr> g2 of
                (Inl e, s', g3) \<Rightarrow> (Inl e, g3)
              | (Inr c, s', g3) \<Rightarrow> (Inr (c, s'), g3))"
    by (rule construct_and_run_seeded [where sd = sd and k = k and ?g2.0 = g2])
  then show "chain_of (fst (construct_and_run sd dm sg n A t sy (Some k) bl sw b g))
                = fst (generate_samples A
                         \<lparr>num_iterations = n, burn_in = max 0 (min b (n - 1)), target_dist = t,
                            algorithm = fst (alg_new A dm sg t sy bl sw g)\<rparr> g2)"
    by (simp add: chain_of_def split: prod.splits sum.splits)
qed

lemma seeded_runs_repeat_example:
  "(9::int) \<noteq> 0
   \<and> (\<forall>g g'::nat. fst (alg_new counter_MH 2 1 () True None None g)
                    = fst (alg_new counter_MH 2 1 () True None None g'))
   \<and> counter_seed 9 = Inr 9
   \<and> fst (run_twice counter_seed 2 1 3 counter_MH () True (Some 9) None None 5 7)
     = snd (run_twice counter_seed 2 1 3 counter_MH () True (Some 9) None None 5 7)
   \<and> chain_of (fst (construct_and_run counter_seed 2 1 3 counter_MH () True (Some 9) None None 5 7))
     = fst (generate_samples counter_MH
              \<lparr>num_iterations = 3, burn_in = max 0 (min 5 (3 - 1)), target_dist = (),
                 algorithm = fst (alg_new counter_MH 2 1 () True None None 7)\<rparr> 9)"
proof -
  have ne: "(9::int) \<noteq> 0" by simp
  have ind: "\<forall>g g'::nat. fst (alg_new counter_MH 2 1 () True None None g)
                    = fst (alg_new counter_MH 2 1 () True None None g')"
    by (simp add: counter_MH_def spec_MHAlgorithm_sel)
  have sd: "counter_seed 9 = Inr 9" by (simp add: counter_seed_def)
  from seeded_runs_repeat [OF ne ind, of counter_seed 3 5 7 7 9] ne ind sd
  show ?thesis by blast
qed

text \<open>
  C2. Two runs of one configuration should return the same chain. With the seed \<open>0\<close> the
  code does not do so: \<^verbatim>\<open>if seed:\<close> takes \<open>0\<close> for no seed, nothing is seeded, the second
  run continues from the generator as the first left it, and the two chains differ. The
  same configuration with the seed \<open>9\<close> goes through the seeding and returns the same
  chain twice.
\<close>

theorem seed_zero_runs_differ:
  "run_twice counter_seed 2 1 3 counter_MH () True (Some 0) None None 5 (7::nat)
     = (Inr [[0, 0], [7, 7], [16, 16], [16, 16]], Inr [[0, 0], [13, 13], [28, 28], [28, 28]])
   \<and> run_twice counter_seed 2 1 3 counter_MH () True (Some 9) None None 5 (7::nat)
     = (Inr [[0, 0], [9, 9], [9, 9], [22, 22]], Inr [[0, 0], [9, 9], [9, 9], [22, 22]])"
  by code_simp


section \<open>Properties of the sweep\<close>

lemma get_target_distribution_unknown:
  assumes "name \<notin> set torch_target_names"
  shows "get_target_distribution synth name dm True kw w
           = (Inl (ValueError ''Unknown target distribution name''), w)"
  using assms by (simp add: get_target_distribution_def torch_target_names_def)

lemma get_target_distribution_known:
  assumes "name \<in> set torch_target_names"
  shows "\<exists>td. get_target_distribution synth name dm True kw w
           = (Inr td, if name = ''SuperFunnel''
                      then synth (kwargs_get (kw_J kw) 5) (kwargs_get (kw_K kw) 3)
                             (kwargs_get (kw_n_per_group kw) 20) w
                      else w)"
  using assms by (auto simp: get_target_distribution_def torch_target_names_def)

lemma make_proposal_config_unknown:
  assumes "proposal_name \<notin> set proposal_names"
  shows "make_proposal_config proposal_name scale_param actual_dim pp
           = Inl (ValueError (''Unknown proposal name: '' @ proposal_name))"
  using assms by (simp add: make_proposal_config_def proposal_names_def)

lemma length_np_linspace: "length (np_linspace start stop num) = num"
  by (simp add: np_linspace_def)

lemma py_max_Max:
  assumes "xs \<noteq> []"
  shows "py_max xs = Inr (Max (set xs))"
proof -
  obtain x rest where xs: "xs = x # rest" using assms by (cases xs) auto
  have flip: "(\<lambda>y m. if m < y then y else m) = (max :: real \<Rightarrow> real \<Rightarrow> real)"
    by (intro ext) (simp add: max_def)
  have "fold max rest x = Max (set (x # rest))"
    by (rule Max.set_eq_fold [symmetric])
  then show ?thesis
    by (simp add: py_max_def xs flip del: set_simps)
qed

lemma argmax_loop_first_max:
  assumes "i = length pre" and "best < i" and "pre ! best = m"
    and "\<forall>j < length pre. pre ! j \<le> m" and "\<forall>j < best. pre ! j < m"
  shows "argmax_loop xs i best m < length (pre @ xs)
         \<and> (\<forall>j < length (pre @ xs). (pre @ xs) ! j \<le> (pre @ xs) ! argmax_loop xs i best m)
         \<and> (\<forall>j < argmax_loop xs i best m. (pre @ xs) ! j < (pre @ xs) ! argmax_loop xs i best m)"
  using assms
proof (induction xs arbitrary: pre i best m)
  case Nil
  then show ?case by simp
next
  case (Cons x xs)
  show ?case
  proof (cases "m < x")
    case True
    have a: "Suc i = length (pre @ [x])" using Cons.prems(1) by simp
    have b: "i < Suc i" by simp
    have c: "(pre @ [x]) ! i = x" using Cons.prems(1) by simp
    have d: "\<forall>j < length (pre @ [x]). (pre @ [x]) ! j \<le> x"
      using Cons.prems(4) True by (auto simp: nth_append less_Suc_eq)
    have e: "\<forall>j < i. (pre @ [x]) ! j < x"
      using Cons.prems(1,4) True by (auto simp: nth_append)
    from Cons.IH [OF a b c d e] True show ?thesis by simp
  next
    case False
    have a: "Suc i = length (pre @ [x])" using Cons.prems(1) by simp
    have b: "best < Suc i" using Cons.prems(2) by simp
    have c: "(pre @ [x]) ! best = m" using Cons.prems(1,2,3) by (simp add: nth_append)
    have d: "\<forall>j < length (pre @ [x]). (pre @ [x]) ! j \<le> m"
      using Cons.prems(4) False by (auto simp: nth_append less_Suc_eq)
    have e: "\<forall>j < best. (pre @ [x]) ! j < m"
      using Cons.prems(1,2,5) by (auto simp: nth_append)
    from Cons.IH [OF a b c d e] False show ?thesis by simp
  qed
qed

lemma np_argmax_first_max:
  assumes "xs \<noteq> []"
  shows "\<exists>i. np_argmax xs = Inr i \<and> i < length xs
           \<and> (\<forall>j < length xs. xs ! j \<le> xs ! i) \<and> (\<forall>j < i. xs ! j < xs ! i)"
proof -
  obtain x rest where xs: "xs = x # rest" using assms by (cases xs) auto
  have "argmax_loop rest 1 0 x < length ([x] @ rest)
         \<and> (\<forall>j < length ([x] @ rest). ([x] @ rest) ! j \<le> ([x] @ rest) ! argmax_loop rest 1 0 x)
         \<and> (\<forall>j < argmax_loop rest 1 0 x. ([x] @ rest) ! j < ([x] @ rest) ! argmax_loop rest 1 0 x)"
    by (rule argmax_loop_first_max) simp_all
  then show ?thesis by (simp add: np_argmax_def xs)
qed

lemma Max_nth:
  assumes "i < length xs" and "\<forall>j < length xs. xs ! j \<le> (xs ! i :: real)"
  shows "Max (set xs) = xs ! i"
proof (rule Max_eqI)
  show "finite (set xs)" by simp
  show "xs ! i \<in> set xs" using assms(1) by simp
  fix y assume "y \<in> set xs"
  then obtain j where "j < length xs" "xs ! j = y" by (auto simp: in_set_conv_nth)
  with assms(2) show "y \<le> xs ! i" by auto
qed

lemma sweep_unknown_proposal:
  assumes "proposal_name \<notin> set proposal_names"
  shows "sweep simulate proposal_name pp actual_dim num_iters td seed b (x # rest) ars esjds w
           = (Inl (ValueError (''Unknown proposal name: '' @ proposal_name)), w)"
  by (simp add: make_proposal_config_unknown [OF assms])

lemma sweep_success:
  assumes "sweep simulate proposal_name pp actual_dim num_iters td seed b scales ars esjds w
             = (Inr (ars', esjds'), w')"
  shows "\<exists>A E. ars' = ars @ A \<and> esjds' = esjds @ E
           \<and> length A = length scales \<and> length E = length scales
           \<and> (\<forall>i < length scales. \<exists>c wi wi'.
                 make_proposal_config proposal_name (scales ! i) actual_dim pp = Inr c
                 \<and> simulate actual_dim c num_iters td seed b wi = (Inr (A ! i, E ! i), wi'))"
  using assms
proof (induction scales arbitrary: ars esjds w)
  case Nil
  then show ?case by simp
next
  case (Cons x rest)
  from Cons.prems obtain c where c: "make_proposal_config proposal_name x actual_dim pp = Inr c"
    by (cases "make_proposal_config proposal_name x actual_dim pp") auto
  obtain r w1 where sim: "simulate actual_dim c num_iters td seed b w = (r, w1)"
    by (cases "simulate actual_dim c num_iters td seed b w")
  from Cons.prems c sim obtain ar esjd where r: "r = Inr (ar, esjd)"
    by (cases r) auto
  from Cons.prems c sim r
  have "sweep simulate proposal_name pp actual_dim num_iters td seed b rest (ars @ [ar]) (esjds @ [esjd]) w1
          = (Inr (ars', esjds'), w')"
    by simp
  from Cons.IH [OF this] obtain A E where
    A: "ars' = (ars @ [ar]) @ A" and E: "esjds' = (esjds @ [esjd]) @ E"
    and len: "length A = length rest" "length E = length rest"
    and each: "\<forall>i < length rest. \<exists>c wi wi'.
                 make_proposal_config proposal_name (rest ! i) actual_dim pp = Inr c
                 \<and> simulate actual_dim c num_iters td seed b wi = (Inr (A ! i, E ! i), wi')"
    by blast
  have "\<forall>i < length (x # rest). \<exists>c wi wi'.
          make_proposal_config proposal_name ((x # rest) ! i) actual_dim pp = Inr c
          \<and> simulate actual_dim c num_iters td seed b wi = (Inr ((ar # A) ! i, (esjd # E) ! i), wi')"
  proof (intro allI impI)
    fix i assume i: "i < length (x # rest)"
    show "\<exists>c wi wi'.
          make_proposal_config proposal_name ((x # rest) ! i) actual_dim pp = Inr c
          \<and> simulate actual_dim c num_iters td seed b wi = (Inr ((ar # A) ! i, (esjd # E) ! i), wi')"
    proof (cases i)
      case 0
      with c sim r show ?thesis by auto
    next
      case (Suc k)
      with i each show ?thesis by simp
    qed
  qed
  with A E len show ?case
    by (intro exI [of _ "ar # A"] exI [of _ "esjd # E"]) simp
qed

text \<open>The record that a sweep with the given two series leads to, and its file.\<close>

lemma run_study_after_sweep:
  assumes td: "get_target_distribution synth target_name dm True kw w = (Inr td, w0)"
    and sw: "sweep simulate proposal_name pp actual_dim num_iters td seed b
               (np_linspace (1 / 100) var_max 40) [] [] w0 = (Inr (ars, esjds), w1)"
    and ad: "actual_dim = (if target_name = ''HybridRosenbrock''
             then calculate_hybrid_rosenbrock_dim (kwargs_get (kw_n1 kw) 3) (kwargs_get (kw_n2 kw) 5)
             else if target_name = ''SuperFunnel''
             then calculate_super_funnel_dim (kwargs_get (kw_J kw) 5) (kwargs_get (kw_K kw) 3)
             else dm)"
    and mx: "py_max esjds = Inr m" and am: "np_argmax esjds = Inr i"
    and ia: "py_index ars i = Inr mar" and isc: "py_index (np_linspace (1 / 100) var_max 40) i = Inr msp"
    and d: "d = \<lparr>target_distribution = target_name, proposal_distribution = proposal_name,
                 dimension = actual_dim, data_num_iterations = num_iters, data_seed = seed,
                 max_esjd = m, max_acceptance_rate = mar, max_scale_param = msp,
                 expected_squared_jump_distances = esjds, acceptance_rates = ars,
                 scale_param_range = np_linspace (1 / 100) var_max 40\<rparr>"
  shows "run_study simulate plots synth dm target_name num_iters var_max seed b proposal_name pp kw w files
           = (case plots d td w1 of
                (Some e, w2) \<Rightarrow> (Inl e, w2, files @ [\<lparr>file_target = target_name,
                     file_proposal = proposal_name, file_dim = actual_dim, file_iters = num_iters,
                     file_seed = seed, file_content = d\<rparr>])
              | (None, w2) \<Rightarrow> (Inr d, w2, files @ [\<lparr>file_target = target_name,
                     file_proposal = proposal_name, file_dim = actual_dim, file_iters = num_iters,
                     file_seed = seed, file_content = d\<rparr>]))"
  unfolding run_study_def Let_def td ad [symmetric] sum.case prod.case sw mx am ia isc d [symmetric]
  by (rule refl)

lemma run_study_no_target:
  assumes "get_target_distribution synth target_name dm True kw w = (Inl e, w0)"
  shows "run_study simulate plots synth dm target_name num_iters var_max seed b proposal_name pp kw w files
           = (Inl e, w0, files)"
  by (simp add: run_study_def assms)

lemma run_study_sweep_failed:
  assumes "get_target_distribution synth target_name dm True kw w = (Inr td, w0)"
    and "sweep simulate proposal_name pp
           (if target_name = ''HybridRosenbrock''
            then calculate_hybrid_rosenbrock_dim (kwargs_get (kw_n1 kw) 3) (kwargs_get (kw_n2 kw) 5)
            else if target_name = ''SuperFunnel''
            then calculate_super_funnel_dim (kwargs_get (kw_J kw) 5) (kwargs_get (kw_K kw) 3)
            else dm)
           num_iters td seed b (np_linspace (1 / 100) var_max 40) [] [] w0 = (Inl e, w1)"
  shows "run_study simulate plots synth dm target_name num_iters var_max seed b proposal_name pp kw w files
           = (Inl e, w1, files)"
  unfolding run_study_def Let_def assms sum.case prod.case by (rule refl)

lemma run_study_written:
  assumes run: "run_study simulate plots synth dm target_name num_iters var_max seed b proposal_name pp kw w files
             = (r, w', files')"
    and written: "files' \<noteq> files \<or> (\<exists>d. r = Inr d)"
    and ad: "actual_dim = (if target_name = ''HybridRosenbrock''
             then calculate_hybrid_rosenbrock_dim (kwargs_get (kw_n1 kw) 3) (kwargs_get (kw_n2 kw) 5)
             else if target_name = ''SuperFunnel''
             then calculate_super_funnel_dim (kwargs_get (kw_J kw) 5) (kwargs_get (kw_K kw) 3)
             else dm)"
  shows "\<exists>td w0 ars esjds w1 i.
           get_target_distribution synth target_name dm True kw w = (Inr td, w0)
           \<and> sweep simulate proposal_name pp actual_dim num_iters td seed b
                (np_linspace (1 / 100) var_max 40) [] [] w0 = (Inr (ars, esjds), w1)
           \<and> length ars = 40 \<and> length esjds = 40
           \<and> np_argmax esjds = Inr i \<and> i < 40
           \<and> (\<forall>j < 40. esjds ! j \<le> esjds ! i) \<and> (\<forall>j < i. esjds ! j < esjds ! i)
           \<and> files' = files @ [\<lparr>file_target = target_name, file_proposal = proposal_name,
                 file_dim = actual_dim, file_iters = num_iters, file_seed = seed,
                 file_content =
                   \<lparr>target_distribution = target_name, proposal_distribution = proposal_name,
                    dimension = actual_dim, data_num_iterations = num_iters, data_seed = seed,
                    max_esjd = Max (set esjds), max_acceptance_rate = ars ! i,
                    max_scale_param = np_linspace (1 / 100) var_max 40 ! i,
                    expected_squared_jump_distances = esjds, acceptance_rates = ars,
                    scale_param_range = np_linspace (1 / 100) var_max 40\<rparr>\<rparr>]
           \<and> (\<forall>d. r = Inr d \<longrightarrow> d =
                   \<lparr>target_distribution = target_name, proposal_distribution = proposal_name,
                    dimension = actual_dim, data_num_iterations = num_iters, data_seed = seed,
                    max_esjd = Max (set esjds), max_acceptance_rate = ars ! i,
                    max_scale_param = np_linspace (1 / 100) var_max 40 ! i,
                    expected_squared_jump_distances = esjds, acceptance_rates = ars,
                    scale_param_range = np_linspace (1 / 100) var_max 40\<rparr>)"
proof -
  obtain rt w0 where gt: "get_target_distribution synth target_name dm True kw w = (rt, w0)"
    by (cases "get_target_distribution synth target_name dm True kw w")
  show ?thesis
  proof (cases rt)
  case (Inl e)
  from run_study_no_target [OF gt [unfolded Inl], where simulate = simulate and plots = plots
      and files = files and num_iters = num_iters and var_max = var_max and seed = seed and b = b
      and proposal_name = proposal_name and pp = pp] run written
  show ?thesis by simp
next
  case (Inr td)
  note Inr = gt [unfolded Inr]
  let ?scales = "np_linspace (1 / 100) var_max 40"
  obtain rs w1 where sw: "sweep simulate proposal_name pp actual_dim num_iters td seed b ?scales [] [] w0 = (rs, w1)"
    by (cases "sweep simulate proposal_name pp actual_dim num_iters td seed b ?scales [] [] w0")
  show ?thesis
  proof (cases rs)
    case (Inl e)
    from run_study_sweep_failed [OF Inr sw [unfolded Inl ad], where plots = plots and files = files]
      run written
    show ?thesis by simp
  next
    case sweep_ok: (Inr p)
    obtain ars esjds where p: "p = (ars, esjds)" by (cases p)
    note sw' = sw [unfolded sweep_ok p]
    from sweep_success [OF sw'] have len: "length ars = 40" "length esjds = 40"
      by (auto simp: length_np_linspace)
    then have ne: "esjds \<noteq> []" by auto
    from np_argmax_first_max [OF ne] len obtain i where
      am: "np_argmax esjds = Inr i" and i: "i < 40"
      and mx: "\<forall>j < 40. esjds ! j \<le> esjds ! i" and first: "\<forall>j < i. esjds ! j < esjds ! i"
      by auto
    have pm: "py_max esjds = Inr (Max (set esjds))" by (rule py_max_Max [OF ne])
    have ia: "py_index ars i = Inr (ars ! i)" using i len by (simp add: py_index_def)
    have isc: "py_index ?scales i = Inr (?scales ! i)"
      using i by (simp add: py_index_def length_np_linspace)
    let ?d = "\<lparr>target_distribution = target_name, proposal_distribution = proposal_name,
                    dimension = actual_dim, data_num_iterations = num_iters, data_seed = seed,
                    max_esjd = Max (set esjds), max_acceptance_rate = ars ! i,
                    max_scale_param = ?scales ! i,
                    expected_squared_jump_distances = esjds, acceptance_rates = ars,
                    scale_param_range = ?scales\<rparr>"
    note unfolded = run_study_after_sweep [OF Inr sw' ad pm am ia isc refl, of plots files]
    obtain pe w2 where pl: "plots ?d td w1 = (pe, w2)" by (cases "plots ?d td w1")
    from unfolded run pl have
      "files' = files @ [\<lparr>file_target = target_name, file_proposal = proposal_name,
                 file_dim = actual_dim, file_iters = num_iters, file_seed = seed,
                 file_content = ?d\<rparr>]"
      and "\<forall>d. r = Inr d \<longrightarrow> d = ?d"
      by (cases pe; simp)+
    with Inr sw' len am i mx first show ?thesis by blast
  qed
qed
qed


lemma make_proposal_config_known:
  assumes "proposal_name \<in> set proposal_names"
  shows "\<exists>c. make_proposal_config proposal_name scale_param actual_dim pp = Inr c"
  using assms
  by (auto simp: make_proposal_config_def proposal_names_def Let_def split: option.splits)

lemma sweep_hill_simulate:
  assumes "proposal_name \<in> set proposal_names"
  shows "\<exists>ars' esjds'. sweep hill_simulate proposal_name pp actual_dim num_iters td seed b scales ars esjds w
           = (Inr (ars', esjds'), w + length scales)"
proof (induction scales arbitrary: ars esjds w)
  case Nil
  then show ?case by simp
next
  case (Cons x rest)
  from make_proposal_config_known [OF assms]
  obtain c where c: "make_proposal_config proposal_name x actual_dim pp = Inr c" by blast
  from Cons [of "ars @ [1 / (1 + proposal_scale c)]"
      "esjds @ [proposal_scale c / (1 + (proposal_scale c)\<^sup>2)]" "Suc w"]
  show ?case by (simp add: c hill_simulate_def)
qed

lemma hill_study_succeeds:
  assumes "target_name \<in> set torch_target_names" and "proposal_name \<in> set proposal_names"
  shows "\<exists>d f w'. run_study hill_simulate no_plots synth dm target_name num_iters var_max seed b
                  proposal_name pp kw w files = (Inr d, w', files @ [f])"
proof -
  let ?scales = "np_linspace (1 / 100) var_max 40"
  let ?ad = "(if target_name = ''HybridRosenbrock''
             then calculate_hybrid_rosenbrock_dim (kwargs_get (kw_n1 kw) 3) (kwargs_get (kw_n2 kw) 5)
             else if target_name = ''SuperFunnel''
             then calculate_super_funnel_dim (kwargs_get (kw_J kw) 5) (kwargs_get (kw_K kw) 3)
             else dm)"
  from get_target_distribution_known [OF assms(1), of synth dm kw w]
  obtain td w0 where td: "get_target_distribution synth target_name dm True kw w = (Inr td, w0)"
    by blast
  from sweep_hill_simulate [OF assms(2), of pp ?ad num_iters td seed b ?scales "[]" "[]" w0]
  obtain ars esjds where sw: "sweep hill_simulate proposal_name pp ?ad num_iters td seed b ?scales [] [] w0
           = (Inr (ars, esjds), w0 + 40)"
    by (auto simp: length_np_linspace)
  from sweep_success [OF sw] have len: "length ars = 40" "length esjds = 40"
    by (auto simp: length_np_linspace)
  then have ne: "esjds \<noteq> []" by auto
  from np_argmax_first_max [OF ne] len obtain i where
    am: "np_argmax esjds = Inr i" and i: "i < 40" by auto
  have pm: "py_max esjds = Inr (Max (set esjds))" by (rule py_max_Max [OF ne])
  have ia: "py_index ars i = Inr (ars ! i)" using i len by (simp add: py_index_def)
  have isc: "py_index ?scales i = Inr (?scales ! i)"
    using i by (simp add: py_index_def length_np_linspace)
  from run_study_after_sweep [OF td sw refl pm am ia isc refl, of no_plots files]
  show ?thesis by (simp add: no_plots_def)
qed

text \<open>
  C7. A target name that the accelerated branch does not know, or a proposal name other
  than the three that \<^verbatim>\<open>run_study\<close> knows, makes the study raise the \<^verbatim>\<open>ValueError\<close> for
  the unknown name before any simulation runs and without writing a results file: the
  state of the process is the one that the look-up of the target left, which is the
  initial one unless the target is the (known) \<^verbatim>\<open>SuperFunnel\<close>, whose construction draws
  the synthetic data.
\<close>

theorem unknown_name_fails:
  assumes "target_name \<notin> set torch_target_names \<or> proposal_name \<notin> set proposal_names"
  shows "run_study simulate plots synth dm target_name num_iters var_max seed b proposal_name pp kw w files
           = (Inl (ValueError (if target_name \<notin> set torch_target_names
                               then ''Unknown target distribution name''
                               else ''Unknown proposal name: '' @ proposal_name)),
              snd (get_target_distribution synth target_name dm True kw w), files)
         \<and> (target_name \<noteq> ''SuperFunnel'' \<longrightarrow>
              snd (get_target_distribution synth target_name dm True kw w) = w)"
proof (cases "target_name \<in> set torch_target_names")
  case False
  note gt = get_target_distribution_unknown [OF False, of synth dm kw w]
  from run_study_no_target [OF gt, where simulate = simulate and plots = plots
      and files = files and num_iters = num_iters and var_max = var_max and seed = seed and b = b
      and proposal_name = proposal_name and pp = pp] False gt
  show ?thesis by simp
next
  case True
  with assms have unk: "proposal_name \<notin> set proposal_names" by simp
  from get_target_distribution_known [OF True, of synth dm kw w]
  obtain td w0 where td: "get_target_distribution synth target_name dm True kw w = (Inr td, w0)"
    and w0: "target_name \<noteq> ''SuperFunnel'' \<longrightarrow> w0 = w"
    by auto
  have "length (np_linspace (1 / 100) var_max 40) = 40" by (rule length_np_linspace)
  then obtain x rest where grid: "np_linspace (1 / 100) var_max 40 = x # rest"
    by (cases "np_linspace (1 / 100) var_max 40") auto
  have "sweep simulate proposal_name pp
           (if target_name = ''HybridRosenbrock''
            then calculate_hybrid_rosenbrock_dim (kwargs_get (kw_n1 kw) 3) (kwargs_get (kw_n2 kw) 5)
            else if target_name = ''SuperFunnel''
            then calculate_super_funnel_dim (kwargs_get (kw_J kw) 5) (kwargs_get (kw_K kw) 3)
            else dm)
           num_iters td seed b (np_linspace (1 / 100) var_max 40) [] [] w0
          = (Inl (ValueError (''Unknown proposal name: '' @ proposal_name)), w0)"
    unfolding grid by (rule sweep_unknown_proposal [OF unk])
  from run_study_sweep_failed [OF td this, where plots = plots and files = files] True td w0
  show ?thesis by simp
qed

theorem unknown_name_fails_witness:
  "''MultivariateNormalTorch'' \<notin> set torch_target_names
   \<and> run_study hill_simulate no_plots seed_42 2 ''MultivariateNormalTorch'' 100 (7 / 2) 42 10 ''Normal''
        None no_kwargs 0 []
      = (Inl (ValueError ''Unknown target distribution name''), 0, [])
   \<and> ''SuperFunnel'' \<in> set torch_target_names
   \<and> ''Gauss'' \<notin> set proposal_names
   \<and> run_study hill_simulate no_plots seed_42 2 ''SuperFunnel'' 100 (7 / 2) 42 10 ''Gauss''
        None no_kwargs 0 []
      = (Inl (ValueError ''Unknown proposal name: Gauss''), 42, [])"
proof -
  have t: "''MultivariateNormalTorch'' \<notin> set torch_target_names"
    "''SuperFunnel'' \<in> set torch_target_names"
    by (simp_all add: torch_target_names_def)
  have p: "''Gauss'' \<notin> set proposal_names"
    by (simp add: proposal_names_def)
  have one: "''MultivariateNormalTorch'' \<notin> set torch_target_names \<or> ''Normal'' \<notin> set proposal_names"
    using t by simp
  have two: "''SuperFunnel'' \<notin> set torch_target_names \<or> ''Gauss'' \<notin> set proposal_names"
    using p by simp
  have ne: "''MultivariateNormalTorch'' \<noteq> ''SuperFunnel''" by simp
  have drawn: "snd (get_target_distribution seed_42 ''SuperFunnel'' 2 True no_kwargs 0) = 42"
    by (simp add: get_target_distribution_def seed_42_def)
  have msg: "''Unknown proposal name: '' @ ''Gauss'' = ''Unknown proposal name: Gauss''" by simp
  from unknown_name_fails [OF one, of hill_simulate no_plots seed_42 2 100 "7 / 2" 42 10 None no_kwargs 0 "[]"]
    ne t
  have first: "run_study hill_simulate no_plots seed_42 2 ''MultivariateNormalTorch'' 100 (7 / 2) 42 10
        ''Normal'' None no_kwargs 0 []
      = (Inl (ValueError ''Unknown target distribution name''), 0, [])"
    by simp
  from unknown_name_fails [OF two, of hill_simulate no_plots seed_42 2 100 "7 / 2" 42 10 None no_kwargs 0 "[]"]
    t
  have second: "run_study hill_simulate no_plots seed_42 2 ''SuperFunnel'' 100 (7 / 2) 42 10 ''Gauss''
        None no_kwargs 0 []
      = (Inl (ValueError ''Unknown proposal name: Gauss''), 42, [])"
    unfolding drawn msg by simp
  from first second t p show ?thesis by blast
qed

text \<open>
  C9. The dimension computed for the hybrid Rosenbrock target is \<open>1 + n2 * (n1 - 1)\<close>, which
  is \<open>11\<close> for \<open>n1 = 3\<close> and \<open>n2 = 5\<close>; and it is the dimension that a study of that target
  records, with \<open>n1\<close> and \<open>n2\<close> taken from the keyword arguments or defaulting to 3 and 5.
\<close>

theorem hybrid_rosenbrock_dimension:
  "calculate_hybrid_rosenbrock_dim n1 n2 = 1 + n2 * (n1 - 1)
   \<and> calculate_hybrid_rosenbrock_dim 3 5 = 11
   \<and> (run_study simulate plots synth dm ''HybridRosenbrock'' num_iters var_max seed b proposal_name pp kw
          w files = (Inr d, w', files') \<longrightarrow>
        dimension d = 1 + kwargs_get (kw_n2 kw) 5 * (kwargs_get (kw_n1 kw) 3 - 1))"
proof (intro conjI impI)
  show "calculate_hybrid_rosenbrock_dim n1 n2 = 1 + n2 * (n1 - 1)"
    by (simp add: calculate_hybrid_rosenbrock_dim_def)
  show "calculate_hybrid_rosenbrock_dim 3 5 = 11"
    by (simp add: calculate_hybrid_rosenbrock_dim_def)
next
  assume run: "run_study simulate plots synth dm ''HybridRosenbrock'' num_iters var_max seed b
      proposal_name pp kw w files = (Inr d, w', files')"
  have w: "files' \<noteq> files \<or> (\<exists>d'. Inr d = (Inr d' :: error + data))" by simp
  from run_study_written [OF run w refl]
  have "dimension d = calculate_hybrid_rosenbrock_dim (kwargs_get (kw_n1 kw) 3) (kwargs_get (kw_n2 kw) 5)"
    by auto
  then show "dimension d = 1 + kwargs_get (kw_n2 kw) 5 * (kwargs_get (kw_n1 kw) 3 - 1)"
    by (simp add: calculate_hybrid_rosenbrock_dim_def)
qed

theorem hybrid_rosenbrock_dimension_witness:
  "run_study hill_simulate no_plots seed_42 2 ''HybridRosenbrock'' 100 (7 / 2) 42 10 ''UniformRadius''
       None no_kwargs 0 []
     = (Inr (projr (fst (run_study hill_simulate no_plots seed_42 2 ''HybridRosenbrock'' 100 (7 / 2) 42 10
                           ''UniformRadius'' None no_kwargs 0 []))),
        fst (snd (run_study hill_simulate no_plots seed_42 2 ''HybridRosenbrock'' 100 (7 / 2) 42 10
                           ''UniformRadius'' None no_kwargs 0 [])),
        snd (snd (run_study hill_simulate no_plots seed_42 2 ''HybridRosenbrock'' 100 (7 / 2) 42 10
                           ''UniformRadius'' None no_kwargs 0 [])))
   \<and> dimension (projr (fst (run_study hill_simulate no_plots seed_42 2 ''HybridRosenbrock'' 100 (7 / 2) 42 10
                           ''UniformRadius'' None no_kwargs 0 [])))
       = 1 + kwargs_get (kw_n2 no_kwargs) 5 * (kwargs_get (kw_n1 no_kwargs) 3 - 1)
   \<and> 1 + kwargs_get (kw_n2 no_kwargs) 5 * (kwargs_get (kw_n1 no_kwargs) 3 - 1) = 11"
proof -
  let ?R = "run_study hill_simulate no_plots seed_42 2 ''HybridRosenbrock'' 100 (7 / 2) 42 10
              ''UniformRadius'' None no_kwargs 0 []"
  have "''HybridRosenbrock'' \<in> set torch_target_names" "''UniformRadius'' \<in> set proposal_names"
    by (simp_all add: torch_target_names_def proposal_names_def)
  from hill_study_succeeds [OF this, of seed_42 2 100 "7 / 2" 42 10 None no_kwargs 0 "[]"]
  obtain d f w' where "?R = (Inr d, w', [] @ [f])" by blast
  then have run: "?R = (Inr (projr (fst ?R)), fst (snd ?R), snd (snd ?R))" by simp
  have eleven: "1 + kwargs_get (kw_n2 no_kwargs) 5 * (kwargs_get (kw_n1 no_kwargs) 3 - 1) = (11::int)"
    by (simp add: no_kwargs_def kwargs_get_def)
  from hybrid_rosenbrock_dimension [of 3 5 hill_simulate no_plots seed_42 2 100 "7 / 2" 42 10
      "''UniformRadius''" None no_kwargs 0 "[]" "projr (fst ?R)" "fst (snd ?R)" "snd (snd ?R)"]
    run eleven
  show ?thesis by blast
qed

text \<open>
  C8. Whenever a study writes its results file, it writes exactly one, holding the record
  that it returns (if the plots do not fail afterwards). In that record both series have
  one entry for each of the 40 grid points, the acceptance rate and the ESJD that the
  simulation of that grid point returned; \<^verbatim>\<open>max_esjd\<close> is the maximum of the ESJD series,
  and there is a grid index, the first at which that maximum is reached, such that
  \<^verbatim>\<open>max_scale_param\<close> is the scale parameter and \<^verbatim>\<open>max_acceptance_rate\<close> the acceptance
  rate at that index.
\<close>

theorem study_selects_max_esjd:
  assumes "run_study simulate plots synth dm target_name num_iters var_max seed b proposal_name pp kw w files
             = (r, w', files')"
    and "files' \<noteq> files"
  shows "\<exists>d i td. files' = files @ [\<lparr>file_target = target_name, file_proposal = proposal_name,
                   file_dim = dimension d, file_iters = num_iters, file_seed = seed,
                   file_content = d\<rparr>]
           \<and> (\<forall>d'. r = Inr d' \<longrightarrow> d' = d)
           \<and> scale_param_range d = np_linspace (1 / 100) var_max 40
           \<and> length (expected_squared_jump_distances d) = 40
           \<and> length (acceptance_rates d) = 40
           \<and> fst (get_target_distribution synth target_name dm True kw w) = Inr td
           \<and> (\<forall>j < 40. \<exists>c wj wj'.
                  make_proposal_config proposal_name (scale_param_range d ! j) (dimension d) pp = Inr c
                  \<and> simulate (dimension d) c num_iters td seed b wj
                      = (Inr (acceptance_rates d ! j, expected_squared_jump_distances d ! j), wj'))
           \<and> max_esjd d = Max (set (expected_squared_jump_distances d))
           \<and> maximizes_esjd d i
           \<and> (\<forall>j < i. expected_squared_jump_distances d ! j < expected_squared_jump_distances d ! i)"
proof -
  have written: "files' \<noteq> files \<or> (\<exists>d. r = Inr d)" using assms(2) by simp
  from run_study_written [OF assms(1) written refl]
  obtain td w0 w1 ars esjds i actual_dim where
    td: "get_target_distribution synth target_name dm True kw w = (Inr td, w0)"
    and sw: "sweep simulate proposal_name pp actual_dim num_iters td seed b
                (np_linspace (1 / 100) var_max 40) [] [] w0 = (Inr (ars, esjds), w1)"
    and len: "length ars = 40" "length esjds = 40"
    and i: "i < 40" and mx: "\<forall>j < 40. esjds ! j \<le> esjds ! i"
    and first: "\<forall>j < i. esjds ! j < esjds ! i"
    and files: "files' = files @ [\<lparr>file_target = target_name, file_proposal = proposal_name,
                 file_dim = actual_dim, file_iters = num_iters, file_seed = seed,
                 file_content =
                   \<lparr>target_distribution = target_name, proposal_distribution = proposal_name,
                    dimension = actual_dim, data_num_iterations = num_iters, data_seed = seed,
                    max_esjd = Max (set esjds), max_acceptance_rate = ars ! i,
                    max_scale_param = np_linspace (1 / 100) var_max 40 ! i,
                    expected_squared_jump_distances = esjds, acceptance_rates = ars,
                    scale_param_range = np_linspace (1 / 100) var_max 40\<rparr>\<rparr>]"
    and ret: "\<forall>d. r = Inr d \<longrightarrow> d =
                   \<lparr>target_distribution = target_name, proposal_distribution = proposal_name,
                    dimension = actual_dim, data_num_iterations = num_iters, data_seed = seed,
                    max_esjd = Max (set esjds), max_acceptance_rate = ars ! i,
                    max_scale_param = np_linspace (1 / 100) var_max 40 ! i,
                    expected_squared_jump_distances = esjds, acceptance_rates = ars,
                    scale_param_range = np_linspace (1 / 100) var_max 40\<rparr>"
    by blast
  let ?d = "\<lparr>target_distribution = target_name, proposal_distribution = proposal_name,
                    dimension = actual_dim, data_num_iterations = num_iters, data_seed = seed,
                    max_esjd = Max (set esjds), max_acceptance_rate = ars ! i,
                    max_scale_param = np_linspace (1 / 100) var_max 40 ! i,
                    expected_squared_jump_distances = esjds, acceptance_rates = ars,
                    scale_param_range = np_linspace (1 / 100) var_max 40\<rparr>"
  have "Max (set esjds) = esjds ! i"
    by (rule Max_nth) (use i len mx in auto)
  with i len mx have sel: "maximizes_esjd ?d i"
    by (simp add: maximizes_esjd_def)
  have f: "files' = files @ [\<lparr>file_target = target_name, file_proposal = proposal_name,
                   file_dim = dimension ?d, file_iters = num_iters, file_seed = seed,
                   file_content = ?d\<rparr>]"
    using files by simp
  have rest: "scale_param_range ?d = np_linspace (1 / 100) var_max 40"
    "length (expected_squared_jump_distances ?d) = 40" "length (acceptance_rates ?d) = 40"
    "max_esjd ?d = Max (set (expected_squared_jump_distances ?d))"
    "\<forall>j < i. expected_squared_jump_distances ?d ! j < expected_squared_jump_distances ?d ! i"
    "fst (get_target_distribution synth target_name dm True kw w) = Inr td"
    using len first td by simp_all
  from sweep_success [OF sw]
  have each: "\<forall>j < 40. \<exists>c wj wj'.
      make_proposal_config proposal_name (scale_param_range ?d ! j) (dimension ?d) pp = Inr c
      \<and> simulate (dimension ?d) c num_iters td seed b wj
          = (Inr (acceptance_rates ?d ! j, expected_squared_jump_distances ?d ! j), wj')"
    by (auto simp: length_np_linspace)
  from f ret rest each sel show ?thesis by blast
qed

theorem study_selects_max_esjd_witness:
  "run_study hill_simulate no_plots seed_42 2 ''MultivariateNormal'' 100 (7 / 2) 42 10 ''Normal''
       None no_kwargs 0 []
     = (fst (run_study hill_simulate no_plots seed_42 2 ''MultivariateNormal'' 100 (7 / 2) 42 10 ''Normal''
               None no_kwargs 0 []),
        fst (snd (run_study hill_simulate no_plots seed_42 2 ''MultivariateNormal'' 100 (7 / 2) 42 10 ''Normal''
               None no_kwargs 0 [])),
        snd (snd (run_study hill_simulate no_plots seed_42 2 ''MultivariateNormal'' 100 (7 / 2) 42 10 ''Normal''
               None no_kwargs 0 [])))
   \<and> snd (snd (run_study hill_simulate no_plots seed_42 2 ''MultivariateNormal'' 100 (7 / 2) 42 10 ''Normal''
               None no_kwargs 0 [])) \<noteq> []
   \<and> (\<exists>d i td. snd (snd (run_study hill_simulate no_plots seed_42 2 ''MultivariateNormal'' 100 (7 / 2) 42 10
                         ''Normal'' None no_kwargs 0 []))
               = [] @ [\<lparr>file_target = ''MultivariateNormal'', file_proposal = ''Normal'',
                         file_dim = dimension d, file_iters = 100, file_seed = 42,
                         file_content = d\<rparr>]
           \<and> (\<forall>d'. fst (run_study hill_simulate no_plots seed_42 2 ''MultivariateNormal'' 100 (7 / 2) 42 10
                          ''Normal'' None no_kwargs 0 []) = Inr d' \<longrightarrow> d' = d)
           \<and> scale_param_range d = np_linspace (1 / 100) (7 / 2) 40
           \<and> length (expected_squared_jump_distances d) = 40
           \<and> length (acceptance_rates d) = 40
           \<and> fst (get_target_distribution seed_42 ''MultivariateNormal'' 2 True no_kwargs 0) = Inr td
           \<and> (\<forall>j < 40. \<exists>c wj wj'.
                  make_proposal_config ''Normal'' (scale_param_range d ! j) (dimension d) None = Inr c
                  \<and> hill_simulate (dimension d) c 100 td 42 10 wj
                      = (Inr (acceptance_rates d ! j, expected_squared_jump_distances d ! j), wj'))
           \<and> max_esjd d = Max (set (expected_squared_jump_distances d))
           \<and> maximizes_esjd d i
           \<and> (\<forall>j < i. expected_squared_jump_distances d ! j < expected_squared_jump_distances d ! i))"
proof -
  let ?R = "run_study hill_simulate no_plots seed_42 2 ''MultivariateNormal'' 100 (7 / 2) 42 10 ''Normal''
              None no_kwargs 0 []"
  have "''MultivariateNormal'' \<in> set torch_target_names" "''Normal'' \<in> set proposal_names"
    by (simp_all add: torch_target_names_def proposal_names_def)
  from hill_study_succeeds [OF this, of seed_42 2 100 "7 / 2" 42 10 None no_kwargs 0 "[]"]
  obtain d f w' where "?R = (Inr d, w', [] @ [f])" by blast
  then have wr: "snd (snd ?R) \<noteq> []" by simp
  have run: "?R = (fst ?R, fst (snd ?R), snd (snd ?R))" by simp
  from study_selects_max_esjd [OF run wr] run wr show ?thesis by blast
qed

end
